theory Spec2Isabelle
  imports Complex_Main
begin

section \<open>Arena objects of \<open>Ken/DJI/Objects.py\<close>\<close>

text \<open>
  Python numbers are embedded as exact numbers: coordinates, lengths, angles and health
  are \<^typ>\<open>real\<close>, counters (ignition delay, supply life, ammunition, buff timer) are
  \<^typ>\<open>int\<close>. Rounding of binary floating point is outside the embedding. A call that
  raises is a value \<open>Inl e\<close> of the sum type \<open>error + 'a\<close>; a call that returns \<open>v\<close> is
  \<open>Inr v\<close>.
\<close>

datatype error = IndexError | ZeroDivisionError | TypeError | AttributeError | RecursionError

definition bindE :: "error + 'a \<Rightarrow> ('a \<Rightarrow> error + 'b) \<Rightarrow> error + 'b" where
  "bindE m f = (case m of Inl e \<Rightarrow> Inl e | Inr v \<Rightarrow> f v)"

text \<open>List subscript \<open>xs[i]\<close> for a non-negative index: out of range raises.\<close>

definition list_get :: "'a list \<Rightarrow> nat \<Rightarrow> error + 'a" where
  "list_get xs i = (if i < length xs then Inr (xs ! i) else Inl IndexError)"


subsection \<open>Points\<close>

record point =
  Point_x :: real
  Point_y :: real

text \<open>Modelled from the spec: class \<open>Point\<close> of module \<open>utils\<close> is not among the
  sources. Section 4.1 gives \<open>move(dx,dy)\<close> as translation.\<close>

definition Point_move :: "point \<Rightarrow> real \<Rightarrow> real \<Rightarrow> point" where
  "Point_move p dx dy = \<lparr>Point_x = Point_x p + dx, Point_y = Point_y p + dy\<rparr>"

text \<open>Modelled from the spec: \<open>diff(other)\<close> is the vector from \<open>other\<close> to \<open>self\<close>
  (class \<open>Point\<close> is not among the sources).\<close>

definition Point_diff :: "point \<Rightarrow> point \<Rightarrow> point" where
  "Point_diff p other = \<lparr>Point_x = Point_x p - Point_x other, Point_y = Point_y p - Point_y other\<rparr>"

text \<open>Modelled from the spec: \<open>midpoint(other)\<close> (class \<open>Point\<close> is not among the
  sources).\<close>

definition Point_midpoint :: "point \<Rightarrow> point \<Rightarrow> point" where
  "Point_midpoint p other =
     \<lparr>Point_x = (Point_x p + Point_x other) / 2, Point_y = (Point_y p + Point_y other) / 2\<rparr>"

text \<open>Modelled from the spec: \<open>dot(other)\<close>, the scalar product (class \<open>Point\<close> is not
  among the sources).\<close>

definition Point_dot :: "point \<Rightarrow> point \<Rightarrow> real" where
  "Point_dot p other = Point_x p * Point_x other + Point_y p * Point_y other"

text \<open>Modelled from the spec: \<open>length\<close>, the Euclidean norm (class \<open>Point\<close> is not
  among the sources). \<open>Rectangle.contains\<close> reads it as an attribute.\<close>

definition Point_length :: "point \<Rightarrow> real" where
  "Point_length p = sqrt (Point_x p * Point_x p + Point_y p * Point_y p)"

text \<open>Modelled from the spec: \<open>project(onto)\<close>, the vector projection of \<open>self\<close> onto
  \<open>onto\<close> (class \<open>Point\<close> is not among the sources). Projecting onto a vector of length
  zero divides by zero (sections 4.1 and 7), which is the error value here.\<close>

definition Point_project :: "point \<Rightarrow> point \<Rightarrow> error + point" where
  "Point_project p onto =
     (if Point_dot onto onto = 0 then Inl ZeroDivisionError
      else (let k = Point_dot p onto / Point_dot onto onto
            in Inr \<lparr>Point_x = k * Point_x onto, Point_y = k * Point_y onto\<rparr>))"


subsection \<open>Rectangles\<close>

text \<open>
  \<open>Rectangle.setAngle\<close> shifts the angle by 360 until it lies in the range from 0
  (inclusive) to 360 (exclusive) and stores it; the functions below return the stored
  angle. (The radian value it also stores is overwritten by the constructor.) It does so
  by calling itself, once per shift, and every call takes a frame of the interpreter's
  stack: a call that would go beyond the recursion limit raises \<open>RecursionError\<close>. The
  limit is the interpreter's default of 1000 frames, which nothing in the sources
  changes. The first argument of \<open>Rectangle_setAngle_frames\<close> is the number of frames
  still free. \<open>Rectangle_setAngle\<close> gives the recursion the whole limit: the frames that
  the callers hold are not counted, so it raises only where the program raises at
  whatever depth \<open>setAngle\<close> is called.
\<close>

definition recursion_limit :: nat where
  "recursion_limit = 1000"

fun Rectangle_setAngle_frames :: "nat \<Rightarrow> real \<Rightarrow> error + real" where
  "Rectangle_setAngle_frames 0 deg = Inl RecursionError"
| "Rectangle_setAngle_frames (Suc n) deg =
     (if deg < 0 then Rectangle_setAngle_frames n (deg + 360)
      else if deg \<ge> 360 then Rectangle_setAngle_frames n (deg - 360)
      else Inr deg)"

definition Rectangle_setAngle :: "real \<Rightarrow> error + real" where
  "Rectangle_setAngle deg = Rectangle_setAngle_frames recursion_limit deg"

record Rectangle =
  bottom_left :: point
  width :: real
  height :: real
  angle :: real
  angle_radian :: real
  vertices :: "point list"
  center :: point

text \<open>\<open>Rectangle.getVertices\<close> reads the anchor, the spans and the angle in radians.\<close>

definition Rectangle_getVertices :: "point \<Rightarrow> real \<Rightarrow> real \<Rightarrow> real \<Rightarrow> point list" where
  "Rectangle_getVertices bl w h rad =
     (let width_dx = cos rad * w;
          width_dy = sin rad * w;
          height_dx = - sin rad * h;
          height_dy = cos rad * h;
          bottom_right = Point_move bl width_dx width_dy;
          top_left = Point_move bl height_dx height_dy;
          top_right = Point_move bottom_right height_dx height_dy
      in [bl, bottom_right, top_right, top_left])"

text \<open>\<open>uprightRectangle.getVertices\<close> overrides it without rotation.\<close>

definition uprightRectangle_getVertices :: "point \<Rightarrow> real \<Rightarrow> real \<Rightarrow> point list" where
  "uprightRectangle_getVertices bl w h =
     (let bottom_right = Point_move bl w 0;
          top_right = Point_move bottom_right 0 h;
          top_left = Point_move bl 0 h
      in [bl, bottom_right, top_right, top_left])"

text \<open>\<open>Rectangle.getCenter\<close>: the midpoint of the anchor and \<open>vertices[2]\<close>. The
  constructor calls it on the four vertices it has just computed.\<close>

definition Rectangle_getCenter :: "point \<Rightarrow> point list \<Rightarrow> point" where
  "Rectangle_getCenter bl vs = Point_midpoint bl (vs ! 2)"

text \<open>\<open>Rectangle.__init__\<close>: anchor and spans are stored, then \<open>setAngle\<close> stores the
  normalised angle or raises; the radian value is taken from the argument as given.\<close>

definition Rectangle_init :: "point \<Rightarrow> real \<Rightarrow> real \<Rightarrow> real \<Rightarrow> error + Rectangle" where
  "Rectangle_init bl w h a =
     bindE (Rectangle_setAngle a) (\<lambda>deg.
       let vs = Rectangle_getVertices bl w h (a / 180 * pi)
       in Inr \<lparr>bottom_left = bl, width = w, height = h, angle = deg,
               angle_radian = a / 180 * pi, vertices = vs, center = Rectangle_getCenter bl vs\<rparr>)"

text \<open>The inherited constructor run on an \<open>uprightRectangle\<close>: the same, with the
  overriding \<open>getVertices\<close>.\<close>

definition uprightRectangle_init :: "point \<Rightarrow> real \<Rightarrow> real \<Rightarrow> real \<Rightarrow> error + Rectangle" where
  "uprightRectangle_init bl w h a =
     bindE (Rectangle_setAngle a) (\<lambda>deg.
       let vs = uprightRectangle_getVertices bl w h
       in Inr \<lparr>bottom_left = bl, width = w, height = h, angle = deg,
               angle_radian = a / 180 * pi, vertices = vs, center = Rectangle_getCenter bl vs\<rparr>)"

text \<open>\<open>Rectangle.contains\<close>: the projection test with tolerance 0.01.\<close>

definition Rectangle_contains :: "Rectangle \<Rightarrow> point \<Rightarrow> error + bool" where
  "Rectangle_contains self pt =
     (let error_threshold = 0.01;
          goal_vec = Point_diff pt (bottom_left self)
      in bindE (list_get (vertices self) 1) (\<lambda>v1.
         bindE (list_get (vertices self) 3) (\<lambda>v3.
           let width_vec = Point_diff v1 (bottom_left self);
               height_vec = Point_diff v3 (bottom_left self)
           in bindE (Point_project goal_vec width_vec) (\<lambda>width_proj.
              bindE (Point_project goal_vec height_vec) (\<lambda>height_proj.
                Inr (Point_length width_proj - width self < error_threshold \<and>
                     Point_length height_proj - height self < error_threshold \<and>
                     Point_dot width_proj width_vec \<ge> 0 \<and>
                     Point_dot height_proj height_vec \<ge> 0))))))"

text \<open>\<open>uprightRectangle.contains\<close>: coordinate bounds, inclusive on all four sides.\<close>

definition uprightRectangle_contains :: "Rectangle \<Rightarrow> point \<Rightarrow> error + bool" where
  "uprightRectangle_contains self pt =
     bindE (list_get (vertices self) 2) (\<lambda>top_right.
       Inr (Point_x (bottom_left self) \<le> Point_x pt \<and> Point_y (bottom_left self) \<le> Point_y pt \<and>
            Point_x top_right \<ge> Point_x pt \<and> Point_y top_right \<ge> Point_y pt))"

text \<open>
  \<open>Rectangle.intersects\<close> builds the list of all eight containment tests before \<open>any\<close>
  looks at it, so a test that raises makes the call raise. The method is inherited by
  \<open>uprightRectangle\<close>; \<open>contains\<close> is dispatched on the class of each receiver, which is
  the parameter \<open>cs\<close> for \<open>self\<close> and \<open>co\<close> for \<open>other\<close>.
\<close>

fun collect :: "(error + 'a) list \<Rightarrow> error + 'a list" where
  "collect [] = Inr []"
| "collect (m # ms) = bindE m (\<lambda>v. bindE (collect ms) (\<lambda>vs. Inr (v # vs)))"

definition intersects_with ::
  "(Rectangle \<Rightarrow> point \<Rightarrow> error + bool) \<Rightarrow> (Rectangle \<Rightarrow> point \<Rightarrow> error + bool) \<Rightarrow>
   Rectangle \<Rightarrow> Rectangle \<Rightarrow> error + bool" where
  "intersects_with cs co self other =
     bindE (collect (map (cs self) (vertices other) @ map (co other) (vertices self)))
       (\<lambda>bs. Inr (\<exists>b \<in> set bs. b))"

definition Rectangle_intersects :: "Rectangle \<Rightarrow> Rectangle \<Rightarrow> error + bool" where
  "Rectangle_intersects = intersects_with Rectangle_contains Rectangle_contains"

definition uprightRectangle_intersects :: "Rectangle \<Rightarrow> Rectangle \<Rightarrow> error + bool" where
  "uprightRectangle_intersects = intersects_with uprightRectangle_contains uprightRectangle_contains"

text \<open>\<open>Rectangle.blocks\<close> ignores the motion vector.\<close>

definition Rectangle_blocks :: "Rectangle \<Rightarrow> point \<Rightarrow> point \<Rightarrow> error + bool" where
  "Rectangle_blocks self pt vec = Rectangle_contains self pt"

definition uprightRectangle_blocks :: "Rectangle \<Rightarrow> point \<Rightarrow> point \<Rightarrow> error + bool" where
  "uprightRectangle_blocks self pt vec = uprightRectangle_contains self pt"


subsection \<open>Robots\<close>

text \<open>
  \<open>Robot\<close> extends \<open>Rectangle\<close>: the inherited attributes are the field \<open>body\<close>. The
  attributes \<open>env\<close>, \<open>team\<close> and \<open>color\<close>, which no method embedded here reads, are left
  out, and so is the registration \<open>team.addRobot(self)\<close> of the constructor.
\<close>

record Robot =
  body :: Rectangle
  health :: real
  gun_angle :: real
  defenseBuffTimer :: int
  gun :: Rectangle
  gun_heat :: real
  bullet :: int

definition Robot_width :: real where "Robot_width = 50"
definition Robot_height :: real where "Robot_height = 30"
definition Robot_gun_width :: real where "Robot_gun_width = Robot_height / 4"
definition Robot_gun_length :: real where "Robot_gun_length = Robot_width"

text \<open>\<open>Robot.getGun\<close> reads the inherited attributes only.\<close>

definition Robot_getGun :: "Rectangle \<Rightarrow> error + Rectangle" where
  "Robot_getGun self =
     bindE (list_get (vertices self) 1) (\<lambda>v1.
       let bl = Point_midpoint (Point_midpoint (Point_midpoint v1 (bottom_left self)) (center self))
                  (center self)
       in Rectangle_init bl Robot_gun_length Robot_gun_width (angle self))"

definition Robot_init :: "point \<Rightarrow> real \<Rightarrow> error + Robot" where
  "Robot_init bl a =
     bindE (Rectangle_init bl Robot_width Robot_height a) (\<lambda>b.
       bindE (Robot_getGun b) (\<lambda>g.
         Inr \<lparr>body = b, health = 100, gun_angle = 0, defenseBuffTimer = 0, gun = g,
              gun_heat = 0, bullet = 0\<rparr>))"

definition Robot_alive :: "Robot \<Rightarrow> bool" where
  "Robot_alive self = (health self > 0)"

definition Robot_load :: "Robot \<Rightarrow> int \<Rightarrow> Robot" where
  "Robot_load self num = self\<lparr>bullet := bullet self + num\<rparr>"

definition Robot_hasDefenseBuff :: "Robot \<Rightarrow> bool" where
  "Robot_hasDefenseBuff self = (defenseBuffTimer self > 0)"

definition Robot_addDefenseBuff :: "Robot \<Rightarrow> int \<Rightarrow> Robot" where
  "Robot_addDefenseBuff self time = self\<lparr>defenseBuffTimer := time * 1000\<rparr>"

definition Robot_setPosition :: "Robot \<Rightarrow> Rectangle \<Rightarrow> error + Robot" where
  "Robot_setPosition self rec =
     bindE (Rectangle_init (bottom_left rec) (width rec) (height rec) (angle rec)) (\<lambda>b.
       bindE (Robot_getGun b) (\<lambda>g. Inr (self\<lparr>body := b, gun := g\<rparr>)))"

text \<open>
  \<open>Robot.execute\<close>. The action and the environment are collaborators outside the
  sources: \<open>resolve\<close> stands for \<open>action.resolve\<close> (\<open>None\<close> when it returns \<open>None\<close>) and
  \<open>isObstructed\<close> for \<open>env.isObstructed\<close>; both are taken to be free of side effects.
\<close>

definition Robot_execute ::
  "(Rectangle \<Rightarrow> Robot \<Rightarrow> bool) \<Rightarrow> (Robot \<Rightarrow> Rectangle option) \<Rightarrow> Robot \<Rightarrow> error + Robot" where
  "Robot_execute isObstructed resolve self =
     (case resolve self of
        None \<Rightarrow> Inr self
      | Some result_rec \<Rightarrow>
          if isObstructed result_rec self then Inr self
          else Robot_setPosition self result_rec)"

definition Robot_reduceHealth :: "Robot \<Rightarrow> real \<Rightarrow> Robot" where
  "Robot_reduceHealth self amount =
     (if Robot_alive self
      then (let amount' = (if Robot_hasDefenseBuff self then amount / 2 else amount)
            in self\<lparr>health := max 0 (health self - amount')\<rparr>)
      else self)"


subsection \<open>Bullets\<close>

text \<open>
  What a bullet sees of the environment: the bodies \<open>env.unpenetrables()\<close> returns, the
  robot objects (a store from references to robots), the live bullets
  \<open>env.characters['bullets']\<close> as references, and \<open>env.isLegal\<close>. A body is an obstacle or
  a reference to a robot. \<open>Obstacle\<close> inherits \<open>blocks\<close> from \<open>Rectangle\<close> and \<open>contains\<close>
  from \<open>uprightRectangle\<close>.
\<close>

datatype character = Obstacle Rectangle | RobotRef nat

record env =
  unpenetrables :: "character list"
  robots :: "nat \<Rightarrow> Robot"
  bullets :: "nat list"
  isLegal :: "point \<Rightarrow> bool"

record Bullet =
  delay :: int
  speed :: real
  travelled :: real
  point :: point
  dir :: real
  active :: bool

definition Bullet_damage :: real where "Bullet_damage = 20"

definition Bullet_init :: "point \<Rightarrow> real \<Rightarrow> Bullet" where
  "Bullet_init p d =
     \<lparr>delay = 0, speed = 25, travelled = 0, point = p, dir = d / 180 * pi, active = True\<rparr>"

definition character_blocks :: "env \<Rightarrow> character \<Rightarrow> point \<Rightarrow> point \<Rightarrow> error + bool" where
  "character_blocks e c pt vec =
     (case c of
        Obstacle r \<Rightarrow> uprightRectangle_blocks r pt vec
      | RobotRef a \<Rightarrow> Rectangle_blocks (body (robots e a)) pt vec)"

definition character_isRobot :: "character \<Rightarrow> bool" where
  "character_isRobot c = (case c of Obstacle r \<Rightarrow> False | RobotRef a \<Rightarrow> True)"

text \<open>\<open>block.reduceHealth(amount)\<close>: only robots have the method.\<close>

definition character_reduceHealth :: "env \<Rightarrow> character \<Rightarrow> real \<Rightarrow> error + env" where
  "character_reduceHealth e c amount =
     (case c of
        Obstacle r \<Rightarrow> Inl AttributeError
      | RobotRef a \<Rightarrow> Inr (e\<lparr>robots := (robots e)(a := Robot_reduceHealth (robots e a) amount)\<rparr>))"

text \<open>\<open>Bullet.destruct\<close>; \<open>self\<close> is the reference of the bullet, and \<open>==\<close> on bullets
  is identity.\<close>

definition Bullet_destruct :: "nat \<Rightarrow> Bullet \<Rightarrow> env \<Rightarrow> Bullet \<times> env" where
  "Bullet_destruct self b e =
     (b\<lparr>active := False\<rparr>, e\<lparr>bullets := filter (\<lambda>r. \<not> r = self) (bullets e)\<rparr>)"

text \<open>The loop of \<open>Bullet.act\<close> over the bodies: \<open>Some\<close> of the state at its \<open>return\<close>,
  \<open>None\<close> when it ends without one.\<close>

fun Bullet_act_loop ::
  "nat \<Rightarrow> Bullet \<Rightarrow> env \<Rightarrow> point \<Rightarrow> point \<Rightarrow> character list \<Rightarrow> error + (Bullet \<times> env) option" where
  "Bullet_act_loop self b e move_point move_vec [] = Inr None"
| "Bullet_act_loop self b e move_point move_vec (block # rest) =
     bindE (character_blocks e block move_point move_vec) (\<lambda>hit.
       if hit then
         (case Bullet_destruct self b e of (b', e') \<Rightarrow>
            if character_isRobot block
            then bindE (character_reduceHealth e' block Bullet_damage) (\<lambda>e''. Inr (Some (b', e'')))
            else Inr (Some (b', e')))
       else Bullet_act_loop self b e move_point move_vec rest)"

definition Bullet_act :: "nat \<Rightarrow> Bullet \<Rightarrow> env \<Rightarrow> error + Bullet \<times> env" where
  "Bullet_act self b e =
     (if \<not> active b then Inr (b, e)
      else if delay b > 0 then Inr (b\<lparr>delay := delay b - 1\<rparr>, e)
      else
        (let move_point = Point_move (point b) (cos (dir b) * speed b) (sin (dir b) * speed b);
             move_vec = Point_diff move_point (point b)
         in bindE (Bullet_act_loop self b e move_point move_vec (unpenetrables e)) (\<lambda>r.
              case r of
                Some s \<Rightarrow> Inr s
              | None \<Rightarrow>
                  if isLegal e move_point then Inr (b\<lparr>point := move_point\<rparr>, e)
                  else Inr (Bullet_destruct self b e))))"


subsection \<open>Zones\<close>

text \<open>
  A zone is an \<open>uprightRectangle\<close> with a team. The body of class \<open>LoadingZone\<close> binds the
  name \<open>life\<close> twice: first to 3, then, by \<open>def life(self)\<close>, to a function, and the later
  binding is the class attribute. An instance has an attribute \<open>life\<close> of its own only
  after \<open>reset\<close> or a \<open>load\<close> that got as far as \<open>self.life -= 1\<close>; until then
  \<open>self.life\<close> is the bound method. The field \<open>life\<close> is the instance attribute, \<open>None\<close>
  while it is not set.
\<close>

datatype life_value = LifeInt int | LifeMethod

record 't LoadingZone =
  lz_rect :: Rectangle
  lz_team :: 't
  life :: "int option"

definition LoadingZone_class_life :: life_value where
  "LoadingZone_class_life = LifeMethod"

definition LoadingZone_init :: "point \<Rightarrow> real \<Rightarrow> real \<Rightarrow> 't \<Rightarrow> error + 't LoadingZone" where
  "LoadingZone_init bl w h t =
     bindE (uprightRectangle_init bl w h 0) (\<lambda>r. Inr \<lparr>lz_rect = r, lz_team = t, life = None\<rparr>)"

text \<open>The attribute lookup \<open>self.life\<close>.\<close>

definition LoadingZone_get_life :: "'t LoadingZone \<Rightarrow> life_value" where
  "LoadingZone_get_life self = (case life self of Some n \<Rightarrow> LifeInt n | None \<Rightarrow> LoadingZone_class_life)"

definition LoadingZone_aligned :: "'t LoadingZone \<Rightarrow> Robot \<Rightarrow> bool" where
  "LoadingZone_aligned self robot = True"

text \<open>\<open>LoadingZone.load\<close>: comparing a method with 0 raises \<open>TypeError\<close>.\<close>

definition LoadingZone_load :: "'t LoadingZone \<Rightarrow> Robot \<Rightarrow> error + 't LoadingZone \<times> Robot" where
  "LoadingZone_load self robot =
     (case LoadingZone_get_life self of
        LifeMethod \<Rightarrow> Inl TypeError
      | LifeInt n \<Rightarrow>
          if n \<le> 0 then Inr (self, robot)
          else (let robot' = (if LoadingZone_aligned self robot then Robot_load robot 100 else robot)
                in Inr (self\<lparr>life := Some (n - 1)\<rparr>, robot')))"

definition LoadingZone_reset :: "'t LoadingZone \<Rightarrow> 't LoadingZone" where
  "LoadingZone_reset self = self\<lparr>life := Some 3\<rparr>"

text \<open>
  \<open>DefenseBuffZone\<close>: the class attribute \<open>active = True\<close> is what a new instance reads,
  so the field starts as \<open>True\<close>. The team is an object outside the sources; the effect of
  \<open>self.team.addDefenseBuff(30)\<close> on it is the parameter \<open>team_addDefenseBuff\<close>.
\<close>

record 't DefenseBuffZone =
  dz_rect :: Rectangle
  dz_team :: 't
  zone_active :: bool

definition DefenseBuffZone_init ::
  "point \<Rightarrow> real \<Rightarrow> real \<Rightarrow> 't \<Rightarrow> error + 't DefenseBuffZone" where
  "DefenseBuffZone_init bl w h t =
     bindE (uprightRectangle_init bl w h 0)
       (\<lambda>r. Inr \<lparr>dz_rect = r, dz_team = t, zone_active = True\<rparr>)"

definition DefenseBuffZone_activate ::
  "(int \<Rightarrow> 't \<Rightarrow> 't) \<Rightarrow> 't DefenseBuffZone \<Rightarrow> 't DefenseBuffZone" where
  "DefenseBuffZone_activate team_addDefenseBuff self =
     (if zone_active self
      then self\<lparr>dz_team := team_addDefenseBuff 30 (dz_team self), zone_active := False\<rparr>
      else self)"

definition DefenseBuffZone_reset :: "'t DefenseBuffZone \<Rightarrow> 't DefenseBuffZone" where
  "DefenseBuffZone_reset self = self\<lparr>zone_active := True\<rparr>"


section \<open>Properties\<close>

subsection \<open>Auxiliary facts\<close>

lemma bindE_simps [simp]:
  "bindE (Inl e) f = Inl e"
  "bindE (Inr v) f = f v"
  by (simp_all add: bindE_def)

lemma recursion_limit_Suc: "recursion_limit = Suc 999"
  by (simp add: recursion_limit_def)

lemma setAngle_frames_normal:
  "0 \<le> deg \<Longrightarrow> deg < 360 \<Longrightarrow> Rectangle_setAngle_frames (Suc n) deg = Inr deg"
  by simp

lemma setAngle_normal: "0 \<le> deg \<Longrightarrow> deg < 360 \<Longrightarrow> Rectangle_setAngle deg = Inr deg"
  unfolding Rectangle_setAngle_def recursion_limit_Suc by (rule setAngle_frames_normal)

text \<open>What \<open>setAngle\<close> stores, when it returns, is in range and differs from the argument
  by a whole number of turns.\<close>

lemma setAngle_frames_result:
  "Rectangle_setAngle_frames n deg = Inr r \<Longrightarrow>
   0 \<le> r \<and> r < 360 \<and> (\<exists>k::int. r = deg + 360 * of_int k)"
proof (induction n arbitrary: deg)
  case 0
  then show ?case by simp
next
  case (Suc n)
  show ?case
  proof (cases "deg < 0")
    case True
    with Suc.prems have "Rectangle_setAngle_frames n (deg + 360) = Inr r" by simp
    from Suc.IH [OF this] obtain k :: int
      where "0 \<le> r" "r < 360" "r = deg + 360 + 360 * of_int k" by blast
    then have "0 \<le> r \<and> r < 360 \<and> r = deg + 360 * of_int (k + 1)"
      by (simp add: algebra_simps)
    then show ?thesis by blast
  next
    case False
    show ?thesis
    proof (cases "360 \<le> deg")
      case True
      with False Suc.prems have "Rectangle_setAngle_frames n (deg - 360) = Inr r" by simp
      from Suc.IH [OF this] obtain k :: int
        where "0 \<le> r" "r < 360" "r = deg - 360 + 360 * of_int k" by blast
      then have "0 \<le> r \<and> r < 360 \<and> r = deg + 360 * of_int (k - 1)"
        by (simp add: algebra_simps)
      then show ?thesis by blast
    next
      case small: False
      with False Suc.prems have "r = deg" by simp
      with False small have "0 \<le> r \<and> r < 360 \<and> r = deg + 360 * of_int 0" by simp
      then show ?thesis by blast
    qed
  qed
qed

lemma setAngle_result:
  "Rectangle_setAngle deg = Inr r \<Longrightarrow> 0 \<le> r \<and> r < 360 \<and> (\<exists>k::int. r = deg + 360 * of_int k)"
  unfolding Rectangle_setAngle_def by (rule setAngle_frames_result)

text \<open>With \<open>n\<close> frames free, an angle of \<open>n\<close> turns or more is out of reach.\<close>

lemma setAngle_frames_overflow:
  "360 * real n \<le> deg \<Longrightarrow> Rectangle_setAngle_frames n deg = Inl RecursionError"
proof (induction n arbitrary: deg)
  case 0
  show ?case by simp
next
  case (Suc n)
  then have "360 * real n \<le> deg - 360" by (simp add: algebra_simps)
  from Suc.IH [OF this] Suc.prems show ?case by simp
qed

lemma setAngle_frames_underflow:
  "deg \<le> - (360 * real n) \<Longrightarrow> Rectangle_setAngle_frames n deg = Inl RecursionError"
proof (induction n arbitrary: deg)
  case 0
  show ?case by simp
next
  case (Suc n)
  then have "deg + 360 \<le> - (360 * real n)" by (simp add: algebra_simps)
  from Suc.IH [OF this] Suc.prems show ?case by simp
qed

lemma Rectangle_init_normal:
  "0 \<le> a \<Longrightarrow> a < 360 \<Longrightarrow>
   Rectangle_init bl w h a =
     Inr \<lparr>bottom_left = bl, width = w, height = h, angle = a, angle_radian = a * pi / 180,
          vertices = Rectangle_getVertices bl w h (a * pi / 180),
          center = Rectangle_getCenter bl (Rectangle_getVertices bl w h (a * pi / 180))\<rparr>"
  by (simp add: Rectangle_init_def setAngle_normal Let_def)

lemma uprightRectangle_init_normal:
  "0 \<le> a \<Longrightarrow> a < 360 \<Longrightarrow>
   uprightRectangle_init bl w h a =
     Inr \<lparr>bottom_left = bl, width = w, height = h, angle = a, angle_radian = a * pi / 180,
          vertices = uprightRectangle_getVertices bl w h,
          center = Rectangle_getCenter bl (uprightRectangle_getVertices bl w h)\<rparr>"
  by (simp add: uprightRectangle_init_def setAngle_normal Let_def)

text \<open>A rectangle that the constructor returned.\<close>

lemma Rectangle_init_Inr:
  assumes "Rectangle_init bl w h a = Inr r"
  shows "Rectangle_setAngle a = Inr (angle r)"
    and "bottom_left r = bl" and "width r = w" and "height r = h"
    and "angle_radian r = a * pi / 180"
    and "vertices r = Rectangle_getVertices bl w h (a * pi / 180)"
    and "center r = Rectangle_getCenter bl (Rectangle_getVertices bl w h (a * pi / 180))"
proof -
  obtain deg where deg: "Rectangle_setAngle a = Inr deg"
    using assms by (cases "Rectangle_setAngle a") (simp_all add: Rectangle_init_def)
  have r: "r = \<lparr>bottom_left = bl, width = w, height = h, angle = deg, angle_radian = a * pi / 180,
              vertices = Rectangle_getVertices bl w h (a * pi / 180),
              center = Rectangle_getCenter bl (Rectangle_getVertices bl w h (a * pi / 180))\<rparr>"
    using assms deg by (simp add: Rectangle_init_def Let_def)
  show "Rectangle_setAngle a = Inr (angle r)" using deg by (simp add: r)
  show "bottom_left r = bl" by (simp add: r)
  show "width r = w" by (simp add: r)
  show "height r = h" by (simp add: r)
  show "angle_radian r = a * pi / 180" by (simp add: r)
  show "vertices r = Rectangle_getVertices bl w h (a * pi / 180)" by (simp add: r)
  show "center r = Rectangle_getCenter bl (Rectangle_getVertices bl w h (a * pi / 180))"
    by (simp add: r)
qed

lemma length_getVertices [simp]: "length (Rectangle_getVertices bl w h rad) = 4"
  by (simp add: Rectangle_getVertices_def Let_def)

lemma getVertices_nth:
  "Rectangle_getVertices bl w h rad ! 0 = bl"
  "Rectangle_getVertices bl w h rad ! Suc 0 = Point_move bl (cos rad * w) (sin rad * w)"
  "Rectangle_getVertices bl w h rad ! 2 =
     Point_move (Point_move bl (cos rad * w) (sin rad * w)) (- sin rad * h) (cos rad * h)"
  "Rectangle_getVertices bl w h rad ! 3 = Point_move bl (- sin rad * h) (cos rad * h)"
  by (simp_all add: Rectangle_getVertices_def Let_def numeral_2_eq_2 numeral_3_eq_3)

lemma cos_turns: "cos (x + 2 * pi * of_int k) = cos x"
  by (simp add: cos_add)

lemma sin_turns: "sin (x + 2 * pi * of_int k) = sin x"
  by (simp add: sin_add)

lemma setAngle_radian:
  assumes "Rectangle_setAngle a = Inr r"
  shows "cos (r * pi / 180) = cos (a * pi / 180) \<and> sin (r * pi / 180) = sin (a * pi / 180)"
proof -
  obtain k :: int where k: "r = a + 360 * of_int k"
    using setAngle_result [OF assms] by blast
  have e: "r * pi / 180 = a * pi / 180 + 2 * pi * of_int k"
    unfolding k by (simp add: field_simps)
  show ?thesis unfolding e by (simp only: cos_turns sin_turns simp_thms)
qed

lemma getVertices_setAngle:
  "Rectangle_setAngle a = Inr r \<Longrightarrow>
   Rectangle_getVertices bl w h (r * pi / 180) = Rectangle_getVertices bl w h (a * pi / 180)"
  using setAngle_radian [of a r] by (simp add: Rectangle_getVertices_def)

text \<open>Building a rectangle again from the attributes of one that the constructor
  returned gives the same rectangle, with the radian value of the normalised angle.\<close>

lemma Rectangle_init_again:
  assumes "Rectangle_init bl w h a = Inr r"
  shows "Rectangle_init (bottom_left r) (width r) (height r) (angle r) =
           Inr (r\<lparr>angle_radian := angle r / 180 * pi\<rparr>)"
proof -
  note f = Rectangle_init_Inr [OF assms]
  have range: "0 \<le> angle r" "angle r < 360"
    using setAngle_result [OF f(1)] by simp_all
  have "Rectangle_init bl w h (angle r) = Inr (r\<lparr>angle_radian := angle r / 180 * pi\<rparr>)"
    unfolding Rectangle_init_normal [OF range] getVertices_setAngle [OF f(1)]
    by (simp add: f(2-4,6,7) Rectangle.equality)
  then show ?thesis by (simp only: f(2-4))
qed

lemma reduceHealth_health:
  "health (Robot_reduceHealth r a) =
     (if health r > 0
      then max 0 (health r - (if defenseBuffTimer r > 0 then a / 2 else a))
      else health r)"
  by (simp add: Robot_reduceHealth_def Robot_alive_def Robot_hasDefenseBuff_def Let_def)

lemma reduceHealth_body: "body (Robot_reduceHealth r a) = body r"
  by (simp add: Robot_reduceHealth_def Let_def)

lemma reduceHealth_dead: "health r \<le> 0 \<Longrightarrow> Robot_reduceHealth r a = r"
  by (simp add: Robot_reduceHealth_def Robot_alive_def)

lemma reduceHealth_step: "0 \<le> health r \<Longrightarrow> 0 \<le> health (Robot_reduceHealth r a)"
  by (simp add: reduceHealth_health)

lemma reduceHealth_le: "0 \<le> a \<Longrightarrow> health (Robot_reduceHealth r a) \<le> health r"
  by (simp add: reduceHealth_health)

lemma foldl_reduceHealth_nonneg:
  "0 \<le> health r \<Longrightarrow> 0 \<le> health (foldl Robot_reduceHealth r amounts)"
  by (induction amounts arbitrary: r) (simp_all add: reduceHealth_step)

lemma foldl_reduceHealth_le:
  "\<forall>a \<in> set amounts. 0 \<le> a \<Longrightarrow> health (foldl Robot_reduceHealth r amounts) \<le> health r"
proof (induction amounts arbitrary: r)
  case Nil
  show ?case by simp
next
  case (Cons a amounts)
  have "health (foldl Robot_reduceHealth (Robot_reduceHealth r a) amounts)
          \<le> health (Robot_reduceHealth r a)"
    using Cons by simp
  also have "\<dots> \<le> health r" using Cons.prems by (simp add: reduceHealth_le)
  finally show ?case by simp
qed

lemma foldl_reduceHealth_dead: "health r \<le> 0 \<Longrightarrow> foldl Robot_reduceHealth r amounts = r"
  by (induction amounts) (simp_all add: reduceHealth_dead)

text \<open>Once an instance has its own \<open>life\<close> (here through \<open>reset\<close>), three loads add 100
  rounds each and use the supply up, and a fourth changes nothing.\<close>

lemma LoadingZone_after_reset:
  fixes z :: "'t LoadingZone"
  defines "z0 \<equiv> LoadingZone_reset z"
  shows "life z0 = Some 3 \<and>
    LoadingZone_load z0 r = Inr (z0\<lparr>life := Some 2\<rparr>, r\<lparr>bullet := bullet r + 100\<rparr>) \<and>
    LoadingZone_load (z0\<lparr>life := Some 2\<rparr>) r = Inr (z0\<lparr>life := Some 1\<rparr>, r\<lparr>bullet := bullet r + 100\<rparr>) \<and>
    LoadingZone_load (z0\<lparr>life := Some 1\<rparr>) r = Inr (z0\<lparr>life := Some 0\<rparr>, r\<lparr>bullet := bullet r + 100\<rparr>) \<and>
    LoadingZone_load (z0\<lparr>life := Some 0\<rparr>) r = Inr (z0\<lparr>life := Some 0\<rparr>, r)"
  by (simp add: z0_def LoadingZone_reset_def LoadingZone_load_def LoadingZone_get_life_def
      LoadingZone_aligned_def Robot_load_def)

text \<open>The gun of a body whose stored angle is normalised and that has a second vertex.\<close>

lemma getGun_normal:
  assumes "0 \<le> angle b" and "angle b < 360" and "list_get (vertices b) 1 = Inr v1"
  shows "Robot_getGun b =
     Inr \<lparr>bottom_left =
            Point_midpoint (Point_midpoint (Point_midpoint v1 (bottom_left b)) (center b)) (center b),
          width = Robot_gun_length, height = Robot_gun_width, angle = angle b,
          angle_radian = angle b * pi / 180,
          vertices = Rectangle_getVertices
            (Point_midpoint (Point_midpoint (Point_midpoint v1 (bottom_left b)) (center b)) (center b))
            Robot_gun_length Robot_gun_width (angle b * pi / 180),
          center = Rectangle_getCenter
            (Point_midpoint (Point_midpoint (Point_midpoint v1 (bottom_left b)) (center b)) (center b))
            (Rectangle_getVertices
              (Point_midpoint (Point_midpoint (Point_midpoint v1 (bottom_left b)) (center b)) (center b))
              Robot_gun_length Robot_gun_width (angle b * pi / 180))\<rparr>"
  unfolding Robot_getGun_def assms(3) bindE_simps Let_def
  by (rule Rectangle_init_normal [OF assms(1,2)])

lemma init_second_vertex:
  assumes "Rectangle_init bl w h a = Inr b"
  shows "list_get (vertices b) 1 =
           Inr (Point_move bl (cos (a * pi / 180) * w) (sin (a * pi / 180) * w))"
  by (simp add: Rectangle_init_Inr(6) [OF assms] list_get_def getVertices_nth)

lemma init_angle_range:
  assumes "Rectangle_init bl w h a = Inr b"
  shows "0 \<le> angle b" and "angle b < 360"
  using setAngle_result [OF Rectangle_init_Inr(1) [OF assms]] by simp_all


subsection \<open>Angle normalisation\<close>

text \<open>
  Claim C8. \<open>setAngle\<close> does not store an angle for every finite input: for 1000000 it
  runs out of frames and raises \<open>RecursionError\<close>, and so does the constructor of a
  rectangle with that angle. Whatever the number \<open>n\<close> of free frames, an angle of \<open>n\<close>
  turns, forwards or backwards, raises as well.
\<close>

theorem setAngle_large_raises:
  "Rectangle_setAngle 1000000 = Inl RecursionError \<and>
   Rectangle_init bl w h 1000000 = Inl RecursionError \<and>
   Rectangle_setAngle_frames n (360 * real n) = Inl RecursionError \<and>
   Rectangle_setAngle_frames n (- (360 * real n)) = Inl RecursionError"
proof -
  have "Rectangle_setAngle 1000000 = Inl RecursionError"
    unfolding Rectangle_setAngle_def
    by (rule setAngle_frames_overflow) (simp add: recursion_limit_def)
  then show ?thesis
    by (simp add: Rectangle_init_def setAngle_frames_overflow setAngle_frames_underflow)
qed


subsection \<open>Defense buff timer\<close>

text \<open>
  Claim C10. \<open>addDefenseBuff(time)\<close> sets the timer to \<open>time\<close> times 1000 whatever it was
  before: the robot is the one with that timer and nothing else changed, no earlier
  value \<open>t\<close> of the timer survives in the result, and a second call with the same time
  changes nothing. With 30 the timer is 30000 and the buff is active.
\<close>

theorem addDefenseBuff_overwrites:
  "defenseBuffTimer (Robot_addDefenseBuff (r\<lparr>defenseBuffTimer := t\<rparr>) time) = time * 1000 \<and>
   Robot_addDefenseBuff r time = r\<lparr>defenseBuffTimer := time * 1000\<rparr> \<and>
   Robot_addDefenseBuff (r\<lparr>defenseBuffTimer := t\<rparr>) time = Robot_addDefenseBuff r time \<and>
   Robot_addDefenseBuff (Robot_addDefenseBuff r time') time = Robot_addDefenseBuff r time \<and>
   Robot_hasDefenseBuff (Robot_addDefenseBuff (r\<lparr>defenseBuffTimer := t\<rparr>) time) = (0 < time) \<and>
   defenseBuffTimer (Robot_addDefenseBuff (r\<lparr>defenseBuffTimer := t\<rparr>) 30) = 30000 \<and>
   Robot_hasDefenseBuff (Robot_addDefenseBuff (r\<lparr>defenseBuffTimer := t\<rparr>) 30) \<and>
   Robot_addDefenseBuff (r\<lparr>defenseBuffTimer := t\<rparr>) 30 = Robot_addDefenseBuff r 30 \<and>
   Robot_addDefenseBuff (Robot_addDefenseBuff r 30) 30 = Robot_addDefenseBuff r 30"
  by (simp add: Robot_addDefenseBuff_def Robot_hasDefenseBuff_def)


subsection \<open>Robot health\<close>

text \<open>
  Claim C4. From a health that is not negative, no sequence of \<open>reduceHealth\<close> calls
  makes it negative, and with amounts that are not negative it never rises. One call on
  a living robot subtracts the amount, halved while the defense buff is active, and
  clamps the result at 0; at health 0 every call leaves the robot as it is.
\<close>

theorem reduceHealth_never_negative:
  assumes "0 \<le> health r" and "\<forall>a \<in> set amounts. 0 \<le> a"
  shows "0 \<le> health (foldl Robot_reduceHealth r amounts) \<and>
         health (foldl Robot_reduceHealth r amounts) \<le> health r \<and>
         health (Robot_reduceHealth r a) =
           (if Robot_alive r
            then max 0 (health r - (if Robot_hasDefenseBuff r then a / 2 else a))
            else health r) \<and>
         (health r = 0 \<longrightarrow> Robot_reduceHealth r a = r \<and> foldl Robot_reduceHealth r amounts = r)"
  using assms
  by (simp add: foldl_reduceHealth_nonneg foldl_reduceHealth_le foldl_reduceHealth_dead
      reduceHealth_dead reduceHealth_health Robot_alive_def Robot_hasDefenseBuff_def)

text \<open>Seven hits of 20 on a new robot, of health 100 and without buff: the health ends
  at 0.\<close>

theorem reduceHealth_never_negative_witness:
  "\<exists>r. Robot_init \<lparr>Point_x = 0, Point_y = 0\<rparr> 0 = Inr r \<and> health r = 100 \<and>
       health (foldl Robot_reduceHealth r [20, 20, 20, 20, 20, 20, 20]) = 0"
proof -
  obtain r where r: "Robot_init \<lparr>Point_x = 0, Point_y = 0\<rparr> 0 = Inr r" "health r = 100"
    "defenseBuffTimer r = 0"
    by (simp add: Robot_init_def Rectangle_init_normal getGun_normal list_get_def)
  have h: "0 \<le> health r" by (simp add: r)
  have a: "\<forall>a \<in> set [20, 20, 20, 20, 20, 20, 20::real]. 0 \<le> a" by simp
  have "health (foldl Robot_reduceHealth r [20, 20, 20, 20, 20, 20, 20]) \<le> 0"
    by (simp add: reduceHealth_health Robot_reduceHealth_def Robot_alive_def
        Robot_hasDefenseBuff_def r)
  with reduceHealth_never_negative [OF h a, of 20]
  have "health (foldl Robot_reduceHealth r [20, 20, 20, 20, 20, 20, 20]) = 0" by simp
  with r show ?thesis by blast
qed


subsection \<open>Zones\<close>

text \<open>
  Claim C5. A newly constructed \<open>LoadingZone\<close> has no attribute \<open>life\<close> of its own, and
  the class attribute of that name is the method \<open>life\<close>, not 3: the first \<open>load\<close> raises
  \<open>TypeError\<close> at the comparison \<open>self.life <= 0\<close>.
\<close>

theorem LoadingZone_fresh_load_raises:
  "\<exists>z. LoadingZone_init bl w h t = Inr z \<and>
       LoadingZone_get_life z = LifeMethod \<and>
       LoadingZone_load z r = Inl TypeError"
  by (simp add: LoadingZone_init_def uprightRectangle_init_normal LoadingZone_get_life_def
      LoadingZone_class_life_def LoadingZone_load_def)

text \<open>
  Claim C9. The constructor returns a \<open>DefenseBuffZone\<close> that is active. \<open>activate\<close> on
  it hands 30 to the team's \<open>addDefenseBuff\<close> once and leaves the zone inactive; a second
  \<open>activate\<close> changes nothing; \<open>reset\<close> makes the zone active again, after which
  \<open>activate\<close> hands 30 to the team once more and a further \<open>activate\<close> changes nothing.
  Where the team passes the time on to \<open>Robot.addDefenseBuff\<close> of its robots, the timer of
  each is 30000.
\<close>

theorem DefenseBuffZone_one_shot:
  "(\<exists>z0. DefenseBuffZone_init bl w h t = Inr z0 \<and> zone_active z0 \<and> dz_team z0 = t \<and>
      DefenseBuffZone_activate f z0 = z0\<lparr>dz_team := f 30 t, zone_active := False\<rparr>) \<and>
   DefenseBuffZone_activate f (DefenseBuffZone_activate f z) = DefenseBuffZone_activate f z \<and>
   zone_active (DefenseBuffZone_reset z) \<and>
   DefenseBuffZone_activate f (DefenseBuffZone_reset z) =
     z\<lparr>dz_team := f 30 (dz_team z), zone_active := False\<rparr> \<and>
   DefenseBuffZone_activate f (DefenseBuffZone_activate f (DefenseBuffZone_reset z)) =
     z\<lparr>dz_team := f 30 (dz_team z), zone_active := False\<rparr> \<and>
   (\<exists>zr. DefenseBuffZone_init bl w h rs = Inr zr \<and>
      map defenseBuffTimer
        (dz_team (DefenseBuffZone_activate (\<lambda>time. map (\<lambda>r. Robot_addDefenseBuff r time)) zr)) =
      map (\<lambda>r. 30000) rs)"
  by (simp add: DefenseBuffZone_init_def uprightRectangle_init_normal DefenseBuffZone_activate_def
      DefenseBuffZone_reset_def Robot_addDefenseBuff_def comp_def)


subsection \<open>The gun of a robot\<close>

lemma getGun_init:
  assumes "Rectangle_init bl w h a = Inr b"
  shows "\<exists>g. Robot_getGun b = Inr g \<and>
           bottom_left g =
             Point_midpoint
               (Point_midpoint
                  (Point_midpoint (Point_move bl (cos (a * pi / 180) * w) (sin (a * pi / 180) * w)) bl)
                  (center b))
               (center b) \<and>
           width g = Robot_gun_length \<and> height g = Robot_gun_width \<and> angle g = angle b"
  by (simp add: getGun_normal [OF init_angle_range [OF assms] init_second_vertex [OF assms]]
      Rectangle_init_Inr(2) [OF assms])

lemma Robot_init_body:
  assumes "Rectangle_init bl Robot_width Robot_height a = Inr b"
  shows "\<exists>r. Robot_init bl a = Inr r \<and> body r = b \<and> Robot_getGun b = Inr (gun r) \<and>
           health r = 100 \<and> defenseBuffTimer r = 0 \<and> bullet r = 0"
proof -
  obtain g where g: "Robot_getGun b = Inr g"
    using getGun_init [OF assms] by blast
  show ?thesis by (simp add: Robot_init_def assms g)
qed

text \<open>
  Claim C6, as the code has it. For every pose that the constructor returns, the body's
  \<open>vertices[1]\<close> is the anchor moved along the width axis, and \<open>getGun\<close> returns a
  rectangle whose anchor corner \<open>bottom_left\<close> (not its center) is the nested midpoint
  chain: midpoint of that vertex and the body's anchor, then midpoint with the body's
  center, then midpoint with the body's center again. Its width is \<open>Robot.width\<close> = 50,
  its height a quarter of \<open>Robot.height\<close>, 7.5, and its angle the body's. Where the
  constructor of \<open>Rectangle\<close> returns the body of a robot, the constructor of \<open>Robot\<close>
  returns a robot with that body whose gun is derived from it in this way.
\<close>

theorem getGun_anchor_chain:
  assumes "Rectangle_init bl w h a = Inr b"
  shows
   "(let right_front = Point_move bl (cos (a / 180 * pi) * w) (sin (a / 180 * pi) * w);
         chain = Point_midpoint (Point_midpoint (Point_midpoint right_front bl) (center b)) (center b)
     in list_get (vertices b) 1 = Inr right_front \<and>
        (\<exists>g. Robot_getGun b = Inr g \<and> bottom_left g = chain \<and>
             width g = Robot_width \<and> Robot_width = 50 \<and>
             height g = Robot_height / 4 \<and> Robot_height / 4 = 7.5 \<and>
             angle g = angle b)) \<and>
    (Rectangle_init bl Robot_width Robot_height a = Inr b' \<longrightarrow>
       (\<exists>r. Robot_init bl a = Inr r \<and> body r = b' \<and> Robot_getGun b' = Inr (gun r)))"
proof -
  have "Rectangle_init bl Robot_width Robot_height a = Inr b' \<Longrightarrow>
      \<exists>r. Robot_init bl a = Inr r \<and> body r = b' \<and> Robot_getGun b' = Inr (gun r)"
    using Robot_init_body [of bl a b'] by blast
  then show ?thesis
    using getGun_init [OF assms] init_second_vertex [OF assms]
    by (simp add: Let_def Robot_gun_length_def Robot_gun_width_def Robot_width_def
        Robot_height_def)
qed

text \<open>A robot's body at the origin, turned by 90 degrees: the second vertex is (0, 50),
  the center (-15, 25), and the anchor of the gun (-11.25, 25).\<close>

theorem getGun_anchor_chain_witness:
  "\<exists>b g. Rectangle_init \<lparr>Point_x = 0, Point_y = 0\<rparr> 50 30 90 = Inr b \<and>
     list_get (vertices b) 1 = Inr \<lparr>Point_x = 0, Point_y = 50\<rparr> \<and>
     center b = \<lparr>Point_x = - 15, Point_y = 25\<rparr> \<and>
     Robot_getGun b = Inr g \<and> bottom_left g = \<lparr>Point_x = - 11.25, Point_y = 25\<rparr> \<and>
     width g = 50 \<and> height g = 7.5 \<and> angle g = 90"
proof -
  obtain b where b: "Rectangle_init \<lparr>Point_x = 0, Point_y = 0\<rparr> 50 30 90 = Inr b"
    by (simp add: Rectangle_init_normal)
  have quarter: "(90::real) / 180 * pi = pi / 2" by simp
  have c: "center b = \<lparr>Point_x = - 15, Point_y = 25\<rparr>"
    using quarter
    by (simp add: Rectangle_init_Inr(7) [OF b] Rectangle_getCenter_def getVertices_nth
        Point_move_def Point_midpoint_def)
  have a: "angle b = 90"
    using Rectangle_init_Inr(1) [OF b] by (simp add: setAngle_normal)
  from getGun_anchor_chain [OF b] obtain g where g:
    "list_get (vertices b) 1 = Inr (Point_move \<lparr>Point_x = 0, Point_y = 0\<rparr> (cos (90 / 180 * pi) * 50)
        (sin (90 / 180 * pi) * 50))"
    "Robot_getGun b = Inr g"
    "bottom_left g = Point_midpoint (Point_midpoint (Point_midpoint
        (Point_move \<lparr>Point_x = 0, Point_y = 0\<rparr> (cos (90 / 180 * pi) * 50) (sin (90 / 180 * pi) * 50))
        \<lparr>Point_x = 0, Point_y = 0\<rparr>) (center b)) (center b)"
    "width g = Robot_width" "Robot_width = 50" "height g = Robot_height / 4"
    "Robot_height / 4 = 7.5" "angle g = angle b"
    unfolding Let_def by blast
  show ?thesis
  proof (intro exI conjI)
    show "Rectangle_init \<lparr>Point_x = 0, Point_y = 0\<rparr> 50 30 90 = Inr b" by (rule b)
    show "list_get (vertices b) 1 = Inr \<lparr>Point_x = 0, Point_y = 50\<rparr>"
      unfolding g(1) quarter by (simp add: Point_move_def)
    show "center b = \<lparr>Point_x = - 15, Point_y = 25\<rparr>" by (rule c)
    show "Robot_getGun b = Inr g" by (rule g(2))
    show "bottom_left g = \<lparr>Point_x = - 11.25, Point_y = 25\<rparr>"
      unfolding g(3) quarter c by (simp add: Point_move_def Point_midpoint_def)
    show "width g = 50" using g(4,5) by simp
    show "height g = 7.5" using g(6,7) by simp
    show "angle g = 90" using g(8) a by simp
  qed
qed

text \<open>
  The claim as stated, with the chain as the gun's center, fails for a new robot at the
  origin with angle 0: the chain is the point (25, 11.25), which is the gun's anchor, and
  the gun's center is (50, 15).
\<close>

theorem getGun_center_counterexample:
  "bindE (Robot_init \<lparr>Point_x = 0, Point_y = 0\<rparr> 0) (\<lambda>r.
     bindE (list_get (vertices (body r)) 1) (\<lambda>v1.
       Inr (Point_midpoint
              (Point_midpoint (Point_midpoint v1 (bottom_left (body r))) (center (body r)))
              (center (body r)),
            bottom_left (gun r), center (gun r)))) =
   Inr (\<lparr>Point_x = 25, Point_y = 11.25\<rparr>, \<lparr>Point_x = 25, Point_y = 11.25\<rparr>,
        \<lparr>Point_x = 50, Point_y = 15\<rparr>) \<and>
   \<lparr>Point_x = 50, Point_y = 15\<rparr> \<noteq> \<lparr>Point_x = 25, Point_y = 11.25::real\<rparr>"
  by (simp add: Robot_init_def Rectangle_init_normal getGun_normal list_get_def getVertices_nth
      Rectangle_getCenter_def Point_move_def Point_midpoint_def Robot_width_def Robot_height_def
      Robot_gun_length_def Robot_gun_width_def)


subsection \<open>Executing an action\<close>

lemma setPosition_init:
  assumes "Rectangle_init (bottom_left rec) (width rec) (height rec) (angle rec) = Inr b"
  shows "\<exists>g. Robot_getGun b = Inr g \<and> Robot_setPosition self rec = Inr (self\<lparr>body := b, gun := g\<rparr>)"
proof -
  obtain g where g: "Robot_getGun b = Inr g"
    using getGun_init [OF assms] by blast
  show ?thesis by (simp add: Robot_setPosition_def assms g)
qed

text \<open>
  Claim C7. When \<open>resolve\<close> returns \<open>None\<close>, or a candidate that the environment reports
  as obstructed, \<open>execute\<close> returns without error and the robot is unchanged. When the
  candidate is clear, the robot's inherited rectangle is rebuilt from the candidate's
  anchor, width, height and angle, the gun is what \<open>getGun\<close> derives from the new
  rectangle, and \<open>execute\<close> returns the robot with both; for a candidate whose stored
  angle is normalised, as that of every rectangle the constructor returns is, the
  rebuilding returns, with the candidate's anchor, width, height and angle. For a
  candidate that the constructor returned the new rectangle is the candidate (vertices,
  center and stored angle included) up to the radian value, which is now that of the
  normalised angle; health, ammunition and buff timer are untouched.
\<close>

theorem execute_commit_or_reject:
  "(resolve self = None \<longrightarrow> Robot_execute isObstructed resolve self = Inr self) \<and>
   (resolve self = Some rec \<and> isObstructed rec self \<longrightarrow>
      Robot_execute isObstructed resolve self = Inr self) \<and>
   (resolve self = Some rec \<and> \<not> isObstructed rec self \<and>
    Rectangle_init (bottom_left rec) (width rec) (height rec) (angle rec) = Inr b \<longrightarrow>
      (\<exists>g. Robot_execute isObstructed resolve self = Inr (self\<lparr>body := b, gun := g\<rparr>) \<and>
            Robot_getGun b = Inr g)) \<and>
   (0 \<le> angle rec \<and> angle rec < 360 \<longrightarrow>
      (\<exists>b. Rectangle_init (bottom_left rec) (width rec) (height rec) (angle rec) = Inr b \<and>
           bottom_left b = bottom_left rec \<and> width b = width rec \<and> height b = height rec \<and>
           angle b = angle rec)) \<and>
   (Rectangle_init bl w h a = Inr rec \<and> resolve self = Some rec \<and> \<not> isObstructed rec self \<longrightarrow>
      (\<exists>r'. Robot_execute isObstructed resolve self = Inr r' \<and>
            body r' = rec\<lparr>angle_radian := angle rec / 180 * pi\<rparr> \<and>
            Robot_getGun (body r') = Inr (gun r') \<and>
            health r' = health self \<and> bullet r' = bullet self \<and>
            defenseBuffTimer r' = defenseBuffTimer self))"
proof (intro conjI impI)
  assume "resolve self = None"
  then show "Robot_execute isObstructed resolve self = Inr self"
    by (simp add: Robot_execute_def)
next
  assume "resolve self = Some rec \<and> isObstructed rec self"
  then show "Robot_execute isObstructed resolve self = Inr self"
    by (simp add: Robot_execute_def)
next
  assume a: "resolve self = Some rec \<and> \<not> isObstructed rec self \<and>
    Rectangle_init (bottom_left rec) (width rec) (height rec) (angle rec) = Inr b"
  then obtain g where "Robot_getGun b = Inr g"
    "Robot_setPosition self rec = Inr (self\<lparr>body := b, gun := g\<rparr>)"
    using setPosition_init [of rec b self] by blast
  with a show "\<exists>g. Robot_execute isObstructed resolve self = Inr (self\<lparr>body := b, gun := g\<rparr>) \<and>
            Robot_getGun b = Inr g"
    by (simp add: Robot_execute_def)
next
  assume "0 \<le> angle rec \<and> angle rec < 360"
  then show "\<exists>b. Rectangle_init (bottom_left rec) (width rec) (height rec) (angle rec) = Inr b \<and>
           bottom_left b = bottom_left rec \<and> width b = width rec \<and> height b = height rec \<and>
           angle b = angle rec"
    by (simp add: Rectangle_init_normal)
next
  assume a: "Rectangle_init bl w h a = Inr rec \<and> resolve self = Some rec \<and> \<not> isObstructed rec self"
  let ?b = "rec\<lparr>angle_radian := angle rec / 180 * pi\<rparr>"
  have again: "Rectangle_init (bottom_left rec) (width rec) (height rec) (angle rec) = Inr ?b"
    using a Rectangle_init_again by blast
  obtain g where g: "Robot_getGun ?b = Inr g"
    "Robot_setPosition self rec = Inr (self\<lparr>body := ?b, gun := g\<rparr>)"
    using setPosition_init [OF again, of self] by blast
  have run: "Robot_execute isObstructed resolve self = Inr (self\<lparr>body := ?b, gun := g\<rparr>)"
    using a g(2) by (simp add: Robot_execute_def)
  show "\<exists>r'. Robot_execute isObstructed resolve self = Inr r' \<and>
            body r' = rec\<lparr>angle_radian := angle rec / 180 * pi\<rparr> \<and>
            Robot_getGun (body r') = Inr (gun r') \<and>
            health r' = health self \<and> bullet r' = bullet self \<and>
            defenseBuffTimer r' = defenseBuffTimer self"
  proof (rule exI [of _ "self\<lparr>body := ?b, gun := g\<rparr>"], intro conjI)
    show "Robot_execute isObstructed resolve self = Inr (self\<lparr>body := ?b, gun := g\<rparr>)"
      by (rule run)
    show "Robot_getGun (body (self\<lparr>body := ?b, gun := g\<rparr>)) = Inr (gun (self\<lparr>body := ?b, gun := g\<rparr>))"
      using g(1) by simp
  qed simp_all
qed

text \<open>A new robot at the origin: no action, an obstructed candidate, and a clear one
  that the constructor returned.\<close>

theorem execute_commit_or_reject_witness:
  "\<exists>r c. Robot_init \<lparr>Point_x = 0, Point_y = 0\<rparr> 0 = Inr r \<and>
     Rectangle_init \<lparr>Point_x = 10, Point_y = 0\<rparr> 50 30 0 = Inr c \<and>
     Robot_execute (\<lambda>rec r. True) (\<lambda>r. None) r = Inr r \<and>
     Robot_execute (\<lambda>rec r. True) (\<lambda>r. Some c) r = Inr r \<and>
     (\<exists>r'. Robot_execute (\<lambda>rec r. False) (\<lambda>r. Some c) r = Inr r' \<and>
        bottom_left (body r') = \<lparr>Point_x = 10, Point_y = 0\<rparr> \<and>
        vertices (body r') = vertices c \<and> angle (body r') = 0 \<and>
        Robot_getGun (body r') = Inr (gun r') \<and> health r' = 100)"
proof -
  obtain b0 where b0: "Rectangle_init \<lparr>Point_x = 0, Point_y = 0\<rparr> Robot_width Robot_height 0 = Inr b0"
    by (simp add: Rectangle_init_normal)
  obtain r where r: "Robot_init \<lparr>Point_x = 0, Point_y = 0\<rparr> 0 = Inr r" "health r = 100"
    using Robot_init_body [OF b0] by blast
  obtain c where c: "Rectangle_init \<lparr>Point_x = 10, Point_y = 0\<rparr> 50 30 0 = Inr c"
    by (simp add: Rectangle_init_normal)
  have c_angle: "angle c = 0"
    using Rectangle_init_Inr(1) [OF c] by (simp add: setAngle_normal)
  have none: "Robot_execute (\<lambda>rec r. True) (\<lambda>r. None) r = Inr r"
    using execute_commit_or_reject [where resolve = "\<lambda>r. None" and self = r
        and isObstructed = "\<lambda>rec r. True"]
    by simp
  have blocked: "Robot_execute (\<lambda>rec r. True) (\<lambda>r. Some c) r = Inr r"
    using execute_commit_or_reject [where resolve = "\<lambda>r. Some c" and self = r
        and isObstructed = "\<lambda>rec r. True" and rec = c]
    by simp
  have "\<exists>r'. Robot_execute (\<lambda>rec r. False) (\<lambda>r. Some c) r = Inr r' \<and>
      body r' = c\<lparr>angle_radian := angle c / 180 * pi\<rparr> \<and>
      Robot_getGun (body r') = Inr (gun r') \<and>
      health r' = health r \<and> bullet r' = bullet r \<and> defenseBuffTimer r' = defenseBuffTimer r"
    using c execute_commit_or_reject [where resolve = "\<lambda>r. Some c" and self = r
        and isObstructed = "\<lambda>rec r. False" and bl = "\<lparr>Point_x = 10, Point_y = 0\<rparr>"
        and w = 50 and h = 30 and a = 0 and rec = c]
    by blast
  then obtain r' where r': "Robot_execute (\<lambda>rec r. False) (\<lambda>r. Some c) r = Inr r'"
      "body r' = c\<lparr>angle_radian := angle c / 180 * pi\<rparr>"
      "Robot_getGun (body r') = Inr (gun r')" "health r' = health r"
    by blast
  have clear: "\<exists>r'. Robot_execute (\<lambda>rec r. False) (\<lambda>r. Some c) r = Inr r' \<and>
      bottom_left (body r') = \<lparr>Point_x = 10, Point_y = 0\<rparr> \<and>
      vertices (body r') = vertices c \<and> angle (body r') = 0 \<and>
      Robot_getGun (body r') = Inr (gun r') \<and> health r' = 100"
  proof (rule exI [of _ r'], intro conjI)
    show "Robot_execute (\<lambda>rec r. False) (\<lambda>r. Some c) r = Inr r'" by (rule r'(1))
    show "bottom_left (body r') = \<lparr>Point_x = 10, Point_y = 0\<rparr>"
      by (simp add: r'(2) Rectangle_init_Inr(2) [OF c])
    show "vertices (body r') = vertices c" by (simp add: r'(2))
    show "angle (body r') = 0" by (simp add: r'(2) c_angle)
    show "Robot_getGun (body r') = Inr (gun r')" by (rule r'(3))
    show "health r' = 100" by (simp add: r'(4) r(2))
  qed
  from r(1) c none blocked clear show ?thesis by blast
qed


subsection \<open>Containment and intersection without rotation\<close>

lemma project_on_width_axis:
  "w \<noteq> 0 \<Longrightarrow> Point_project g \<lparr>Point_x = w, Point_y = 0\<rparr> = Inr \<lparr>Point_x = Point_x g, Point_y = 0\<rparr>"
  by (simp add: Point_project_def Point_dot_def Let_def)

lemma project_on_height_axis:
  "h \<noteq> 0 \<Longrightarrow> Point_project g \<lparr>Point_x = 0, Point_y = h\<rparr> = Inr \<lparr>Point_x = 0, Point_y = Point_y g\<rparr>"
  by (simp add: Point_project_def Point_dot_def Let_def)

lemma getVertices_upright:
  "Rectangle_getVertices bl w h 0 = uprightRectangle_getVertices bl w h"
  by (simp add: Rectangle_getVertices_def uprightRectangle_getVertices_def Let_def Point_move_def)

text \<open>The two tests on a rectangle whose vertices are those of the unrotated rectangle.\<close>

lemma Rectangle_contains_unrotated:
  assumes "vertices r = uprightRectangle_getVertices (bottom_left r) (width r) (height r)"
    and "0 < width r" and "0 < height r"
  shows "Rectangle_contains r pt =
     Inr (Point_x (bottom_left r) \<le> Point_x pt \<and>
          Point_x pt < Point_x (bottom_left r) + width r + 0.01 \<and>
          Point_y (bottom_left r) \<le> Point_y pt \<and>
          Point_y pt < Point_y (bottom_left r) + height r + 0.01)"
proof -
  have eq: "Rectangle_contains r pt =
      Inr (\<bar>Point_x pt - Point_x (bottom_left r)\<bar> - width r < 0.01 \<and>
           \<bar>Point_y pt - Point_y (bottom_left r)\<bar> - height r < 0.01 \<and>
           0 \<le> (Point_x pt - Point_x (bottom_left r)) * width r \<and>
           0 \<le> (Point_y pt - Point_y (bottom_left r)) * height r)"
    using assms(2,3)
    by (simp add: Rectangle_contains_def assms(1) uprightRectangle_getVertices_def Let_def
        list_get_def project_on_width_axis project_on_height_axis Point_length_def
        Point_dot_def Point_diff_def Point_move_def)
  have "0 \<le> (Point_x pt - Point_x (bottom_left r)) * width r \<longleftrightarrow>
      Point_x (bottom_left r) \<le> Point_x pt"
    using assms(2) by (simp add: zero_le_mult_iff)
  moreover have "0 \<le> (Point_y pt - Point_y (bottom_left r)) * height r \<longleftrightarrow>
      Point_y (bottom_left r) \<le> Point_y pt"
    using assms(3) by (simp add: zero_le_mult_iff)
  ultimately show ?thesis unfolding eq by auto
qed

lemma uprightRectangle_contains_unrotated:
  assumes "vertices r = uprightRectangle_getVertices (bottom_left r) (width r) (height r)"
  shows "uprightRectangle_contains r pt =
     Inr (Point_x (bottom_left r) \<le> Point_x pt \<and> Point_x pt \<le> Point_x (bottom_left r) + width r \<and>
          Point_y (bottom_left r) \<le> Point_y pt \<and> Point_y pt \<le> Point_y (bottom_left r) + height r)"
  by (auto simp add: uprightRectangle_contains_def assms list_get_def
      uprightRectangle_getVertices_def Let_def Point_move_def)

lemma collect_Inr: "collect (map (\<lambda>v. Inr (f v)) xs) = Inr (map f xs)"
  by (induction xs) simp_all

lemma collect_append_Inr:
  "collect (map (\<lambda>v. Inr (f v)) xs @ map (\<lambda>v. Inr (g v)) ys) = Inr (map f xs @ map g ys)"
  by (induction xs) (simp_all add: collect_Inr)

lemma Rectangle_intersects_unrotated:
  assumes "vertices r = uprightRectangle_getVertices (bottom_left r) (width r) (height r)"
    and "0 < width r" and "0 < height r"
    and "vertices r' = uprightRectangle_getVertices (bottom_left r') (width r') (height r')"
    and "0 < width r'" and "0 < height r'"
  shows "Rectangle_intersects r r' =
     Inr ((\<exists>v \<in> set (vertices r').
             Point_x (bottom_left r) \<le> Point_x v \<and>
             Point_x v < Point_x (bottom_left r) + width r + 0.01 \<and>
             Point_y (bottom_left r) \<le> Point_y v \<and>
             Point_y v < Point_y (bottom_left r) + height r + 0.01) \<or>
          (\<exists>v \<in> set (vertices r).
             Point_x (bottom_left r') \<le> Point_x v \<and>
             Point_x v < Point_x (bottom_left r') + width r' + 0.01 \<and>
             Point_y (bottom_left r') \<le> Point_y v \<and>
             Point_y v < Point_y (bottom_left r') + height r' + 0.01))"
proof -
  have c: "Rectangle_contains r =
      (\<lambda>v. Inr (Point_x (bottom_left r) \<le> Point_x v \<and>
          Point_x v < Point_x (bottom_left r) + width r + 0.01 \<and>
          Point_y (bottom_left r) \<le> Point_y v \<and>
          Point_y v < Point_y (bottom_left r) + height r + 0.01))"
    using assms(1-3) by (intro ext) (rule Rectangle_contains_unrotated)
  have c': "Rectangle_contains r' =
      (\<lambda>v. Inr (Point_x (bottom_left r') \<le> Point_x v \<and>
          Point_x v < Point_x (bottom_left r') + width r' + 0.01 \<and>
          Point_y (bottom_left r') \<le> Point_y v \<and>
          Point_y v < Point_y (bottom_left r') + height r' + 0.01))"
    using assms(4-6) by (intro ext) (rule Rectangle_contains_unrotated)
  show ?thesis
    unfolding Rectangle_intersects_def intersects_with_def c c' collect_append_Inr bindE_simps
    by (simp add: bex_Un)
qed

lemma uprightRectangle_intersects_unrotated:
  assumes "vertices r = uprightRectangle_getVertices (bottom_left r) (width r) (height r)"
    and "vertices r' = uprightRectangle_getVertices (bottom_left r') (width r') (height r')"
  shows "uprightRectangle_intersects r r' =
     Inr ((\<exists>v \<in> set (vertices r').
             Point_x (bottom_left r) \<le> Point_x v \<and> Point_x v \<le> Point_x (bottom_left r) + width r \<and>
             Point_y (bottom_left r) \<le> Point_y v \<and> Point_y v \<le> Point_y (bottom_left r) + height r) \<or>
          (\<exists>v \<in> set (vertices r).
             Point_x (bottom_left r') \<le> Point_x v \<and> Point_x v \<le> Point_x (bottom_left r') + width r' \<and>
             Point_y (bottom_left r') \<le> Point_y v \<and> Point_y v \<le> Point_y (bottom_left r') + height r'))"
proof -
  have c: "uprightRectangle_contains r =
      (\<lambda>v. Inr (Point_x (bottom_left r) \<le> Point_x v \<and> Point_x v \<le> Point_x (bottom_left r) + width r \<and>
          Point_y (bottom_left r) \<le> Point_y v \<and> Point_y v \<le> Point_y (bottom_left r) + height r))"
    using assms(1) by (intro ext) (rule uprightRectangle_contains_unrotated)
  have c': "uprightRectangle_contains r' =
      (\<lambda>v. Inr (Point_x (bottom_left r') \<le> Point_x v \<and> Point_x v \<le> Point_x (bottom_left r') + width r' \<and>
          Point_y (bottom_left r') \<le> Point_y v \<and> Point_y v \<le> Point_y (bottom_left r') + height r'))"
    using assms(2) by (intro ext) (rule uprightRectangle_contains_unrotated)
  show ?thesis
    unfolding uprightRectangle_intersects_def intersects_with_def c c' collect_append_Inr bindE_simps
    by (simp add: bex_Un)
qed

text \<open>What the two constructors return for angle 0.\<close>

lemma Rectangle_init_angle0:
  "\<exists>r. Rectangle_init bl w h 0 = Inr r \<and> bottom_left r = bl \<and> width r = w \<and> height r = h \<and>
       angle r = 0 \<and> vertices r = uprightRectangle_getVertices bl w h"
  by (simp add: Rectangle_init_normal getVertices_upright)

lemma uprightRectangle_init_angle0:
  "\<exists>r. uprightRectangle_init bl w h 0 = Inr r \<and> bottom_left r = bl \<and> width r = w \<and>
       height r = h \<and> angle r = 0 \<and> vertices r = uprightRectangle_getVertices bl w h"
  by (simp add: uprightRectangle_init_normal)

text \<open>
  Claim C1, as the code has it. For a rectangle of angle 0 with positive width and
  height, both constructors return, and the projection test of \<open>Rectangle.contains\<close>
  accepts exactly the points from the anchor up to, but excluding, the far edges moved
  outwards by the tolerance 0.01, while \<open>uprightRectangle.contains\<close> accepts exactly the
  points within the edges, all four inclusive. So whatever the specialisation accepts
  the general test accepts, and the two agree on every point that is not beyond the
  right or the top edge. Both give the same vertices. For two such rectangles both
  \<open>intersects\<close> return, and where the specialisation reports an intersection the general
  test does too.
\<close>

theorem contains_angle0_tolerance:
  assumes "0 < w" and "0 < h" and "0 < w'" and "0 < h'"
  shows
   "\<exists>R U R' U'.
      Rectangle_init bl w h 0 = Inr R \<and> uprightRectangle_init bl w h 0 = Inr U \<and>
      Rectangle_init bl' w' h' 0 = Inr R' \<and> uprightRectangle_init bl' w' h' 0 = Inr U' \<and>
      Rectangle_contains R pt =
        Inr (Point_x bl \<le> Point_x pt \<and> Point_x pt < Point_x bl + w + 0.01 \<and>
             Point_y bl \<le> Point_y pt \<and> Point_y pt < Point_y bl + h + 0.01) \<and>
      uprightRectangle_contains U pt =
        Inr (Point_x bl \<le> Point_x pt \<and> Point_x pt \<le> Point_x bl + w \<and>
             Point_y bl \<le> Point_y pt \<and> Point_y pt \<le> Point_y bl + h) \<and>
      (uprightRectangle_contains U pt = Inr True \<longrightarrow> Rectangle_contains R pt = Inr True) \<and>
      (Point_x pt \<le> Point_x bl + w \<and> Point_y pt \<le> Point_y bl + h \<longrightarrow>
         Rectangle_contains R pt = uprightRectangle_contains U pt) \<and>
      vertices R = vertices U \<and>
      (\<exists>b. Rectangle_intersects R R' = Inr b) \<and>
      (\<exists>b. uprightRectangle_intersects U U' = Inr b) \<and>
      (uprightRectangle_intersects U U' = Inr True \<longrightarrow> Rectangle_intersects R R' = Inr True)"
proof -
  obtain R where R: "Rectangle_init bl w h 0 = Inr R" "bottom_left R = bl" "width R = w"
      "height R = h" "vertices R = uprightRectangle_getVertices bl w h"
    using Rectangle_init_angle0 by blast
  obtain U where U: "uprightRectangle_init bl w h 0 = Inr U" "bottom_left U = bl" "width U = w"
      "height U = h" "vertices U = uprightRectangle_getVertices bl w h"
    using uprightRectangle_init_angle0 by blast
  obtain R' where R': "Rectangle_init bl' w' h' 0 = Inr R'" "bottom_left R' = bl'" "width R' = w'"
      "height R' = h'" "vertices R' = uprightRectangle_getVertices bl' w' h'"
    using Rectangle_init_angle0 by blast
  obtain U' where U': "uprightRectangle_init bl' w' h' 0 = Inr U'" "bottom_left U' = bl'"
      "width U' = w'" "height U' = h'" "vertices U' = uprightRectangle_getVertices bl' w' h'"
    using uprightRectangle_init_angle0 by blast
  have cR: "Rectangle_contains R pt =
        Inr (Point_x bl \<le> Point_x pt \<and> Point_x pt < Point_x bl + w + 0.01 \<and>
             Point_y bl \<le> Point_y pt \<and> Point_y pt < Point_y bl + h + 0.01)"
    using Rectangle_contains_unrotated [of R pt] assms(1,2) by (simp add: R)
  have cU: "uprightRectangle_contains U pt =
        Inr (Point_x bl \<le> Point_x pt \<and> Point_x pt \<le> Point_x bl + w \<and>
             Point_y bl \<le> Point_y pt \<and> Point_y pt \<le> Point_y bl + h)"
    using uprightRectangle_contains_unrotated [of U pt] by (simp add: U)
  have iR: "Rectangle_intersects R R' =
     Inr ((\<exists>v \<in> set (uprightRectangle_getVertices bl' w' h').
             Point_x bl \<le> Point_x v \<and> Point_x v < Point_x bl + w + 0.01 \<and>
             Point_y bl \<le> Point_y v \<and> Point_y v < Point_y bl + h + 0.01) \<or>
          (\<exists>v \<in> set (uprightRectangle_getVertices bl w h).
             Point_x bl' \<le> Point_x v \<and> Point_x v < Point_x bl' + w' + 0.01 \<and>
             Point_y bl' \<le> Point_y v \<and> Point_y v < Point_y bl' + h' + 0.01))"
    using Rectangle_intersects_unrotated [of R R'] assms by (simp add: R R')
  have iU: "uprightRectangle_intersects U U' =
     Inr ((\<exists>v \<in> set (uprightRectangle_getVertices bl' w' h').
             Point_x bl \<le> Point_x v \<and> Point_x v \<le> Point_x bl + w \<and>
             Point_y bl \<le> Point_y v \<and> Point_y v \<le> Point_y bl + h) \<or>
          (\<exists>v \<in> set (uprightRectangle_getVertices bl w h).
             Point_x bl' \<le> Point_x v \<and> Point_x v \<le> Point_x bl' + w' \<and>
             Point_y bl' \<le> Point_y v \<and> Point_y v \<le> Point_y bl' + h'))"
    using uprightRectangle_intersects_unrotated [of U U'] by (simp add: U U')
  have mono: "uprightRectangle_intersects U U' = Inr True \<longrightarrow> Rectangle_intersects R R' = Inr True"
    unfolding iR iU using assms
    by (simp add: uprightRectangle_getVertices_def Let_def Point_move_def)
  show ?thesis
  proof (intro exI conjI)
    show "Rectangle_init bl w h 0 = Inr R" by (rule R(1))
    show "uprightRectangle_init bl w h 0 = Inr U" by (rule U(1))
    show "Rectangle_init bl' w' h' 0 = Inr R'" by (rule R'(1))
    show "uprightRectangle_init bl' w' h' 0 = Inr U'" by (rule U'(1))
    show "Rectangle_contains R pt =
        Inr (Point_x bl \<le> Point_x pt \<and> Point_x pt < Point_x bl + w + 0.01 \<and>
             Point_y bl \<le> Point_y pt \<and> Point_y pt < Point_y bl + h + 0.01)"
      by (rule cR)
    show "uprightRectangle_contains U pt =
        Inr (Point_x bl \<le> Point_x pt \<and> Point_x pt \<le> Point_x bl + w \<and>
             Point_y bl \<le> Point_y pt \<and> Point_y pt \<le> Point_y bl + h)"
      by (rule cU)
    show "uprightRectangle_contains U pt = Inr True \<longrightarrow> Rectangle_contains R pt = Inr True"
      unfolding cR cU by simp
    show "Point_x pt \<le> Point_x bl + w \<and> Point_y pt \<le> Point_y bl + h \<longrightarrow>
         Rectangle_contains R pt = uprightRectangle_contains U pt"
      unfolding cR cU by auto
    show "vertices R = vertices U" by (simp add: R U)
    show "Rectangle_intersects R R' = Inr
          ((\<exists>v \<in> set (uprightRectangle_getVertices bl' w' h').
             Point_x bl \<le> Point_x v \<and> Point_x v < Point_x bl + w + 0.01 \<and>
             Point_y bl \<le> Point_y v \<and> Point_y v < Point_y bl + h + 0.01) \<or>
          (\<exists>v \<in> set (uprightRectangle_getVertices bl w h).
             Point_x bl' \<le> Point_x v \<and> Point_x v < Point_x bl' + w' + 0.01 \<and>
             Point_y bl' \<le> Point_y v \<and> Point_y v < Point_y bl' + h' + 0.01))"
      by (rule iR)
    show "uprightRectangle_intersects U U' = Inr
          ((\<exists>v \<in> set (uprightRectangle_getVertices bl' w' h').
             Point_x bl \<le> Point_x v \<and> Point_x v \<le> Point_x bl + w \<and>
             Point_y bl \<le> Point_y v \<and> Point_y v \<le> Point_y bl + h) \<or>
          (\<exists>v \<in> set (uprightRectangle_getVertices bl w h).
             Point_x bl' \<le> Point_x v \<and> Point_x v \<le> Point_x bl' + w' \<and>
             Point_y bl' \<le> Point_y v \<and> Point_y v \<le> Point_y bl' + h'))"
      by (rule iU)
    show "uprightRectangle_intersects U U' = Inr True \<longrightarrow> Rectangle_intersects R R' = Inr True"
      by (rule mono)
  qed
qed

text \<open>A rectangle of width 2 and height 1 with an inner point, and a rectangle that
  overlaps it.\<close>

theorem contains_angle0_tolerance_witness:
  "bindE (Rectangle_init \<lparr>Point_x = 0, Point_y = 0\<rparr> 2 1 0)
     (\<lambda>R. Rectangle_contains R \<lparr>Point_x = 1, Point_y = 1 / 2\<rparr>) = Inr True \<and>
   bindE (uprightRectangle_init \<lparr>Point_x = 0, Point_y = 0\<rparr> 2 1 0)
     (\<lambda>U. uprightRectangle_contains U \<lparr>Point_x = 1, Point_y = 1 / 2\<rparr>) = Inr True \<and>
   bindE (Rectangle_init \<lparr>Point_x = 0, Point_y = 0\<rparr> 2 1 0)
     (\<lambda>R. bindE (Rectangle_init \<lparr>Point_x = 0, Point_y = 0\<rparr> 3 4 0)
        (\<lambda>R'. Rectangle_intersects R R')) = Inr True"
proof -
  have pos: "(0::real) < 2" "(0::real) < 1" "(0::real) < 3" "(0::real) < 4" by simp_all
  from contains_angle0_tolerance [OF pos, of "\<lparr>Point_x = 0, Point_y = 0\<rparr>"
      "\<lparr>Point_x = 0, Point_y = 0\<rparr>" "\<lparr>Point_x = 1, Point_y = 1 / 2\<rparr>"]
  obtain R U R' U' where t:
    "Rectangle_init \<lparr>Point_x = 0, Point_y = 0\<rparr> 2 1 0 = Inr R"
    "uprightRectangle_init \<lparr>Point_x = 0, Point_y = 0\<rparr> 2 1 0 = Inr U"
    "Rectangle_init \<lparr>Point_x = 0, Point_y = 0\<rparr> 3 4 0 = Inr R'"
    "uprightRectangle_init \<lparr>Point_x = 0, Point_y = 0\<rparr> 3 4 0 = Inr U'"
    "uprightRectangle_contains U \<lparr>Point_x = 1, Point_y = 1 / 2\<rparr> =
       Inr (Point_x \<lparr>Point_x = 0, Point_y = 0\<rparr> \<le> Point_x \<lparr>Point_x = 1, Point_y = 1 / 2\<rparr> \<and>
            Point_x \<lparr>Point_x = 1, Point_y = 1 / 2\<rparr> \<le> Point_x \<lparr>Point_x = 0, Point_y = 0\<rparr> + 2 \<and>
            Point_y \<lparr>Point_x = 0, Point_y = 0\<rparr> \<le> Point_y \<lparr>Point_x = 1, Point_y = 1 / 2\<rparr> \<and>
            Point_y \<lparr>Point_x = 1, Point_y = 1 / 2\<rparr> \<le> Point_y \<lparr>Point_x = 0, Point_y = 0\<rparr> + 1)"
    "uprightRectangle_contains U \<lparr>Point_x = 1, Point_y = 1 / 2\<rparr> = Inr True \<longrightarrow>
       Rectangle_contains R \<lparr>Point_x = 1, Point_y = 1 / 2\<rparr> = Inr True"
    "uprightRectangle_intersects U U' = Inr True \<longrightarrow> Rectangle_intersects R R' = Inr True"
    by blast
  have u: "uprightRectangle_contains U \<lparr>Point_x = 1, Point_y = 1 / 2\<rparr> = Inr True"
    unfolding t(5) by simp
  have fU: "vertices U = uprightRectangle_getVertices (bottom_left U) (width U) (height U)"
    using t(2) by (simp add: uprightRectangle_init_normal) auto
  have fU': "vertices U' = uprightRectangle_getVertices (bottom_left U') (width U') (height U')"
    using t(4) by (simp add: uprightRectangle_init_normal) auto
  have ui: "uprightRectangle_intersects U U' = Inr True"
    unfolding uprightRectangle_intersects_unrotated [OF fU fU']
    using t(2,4)
    by (auto simp add: uprightRectangle_init_normal uprightRectangle_getVertices_def Let_def
        Point_move_def)
  from t(1,2,3) t(6,7) u ui show ?thesis by simp
qed

text \<open>
  The claim as stated, equal results, fails in the tolerance band: the unit square at
  the origin and the point (129/128, 1/2), which lies 1/128 beyond its right edge; and
  the unit squares anchored at (0, 0) and at (129/128, 0), which are 1/128 apart.
\<close>

theorem contains_angle0_counterexample:
  "bindE (Rectangle_init \<lparr>Point_x = 0, Point_y = 0\<rparr> 1 1 0)
     (\<lambda>R. Rectangle_contains R \<lparr>Point_x = 129 / 128, Point_y = 1 / 2\<rparr>) = Inr True \<and>
   bindE (uprightRectangle_init \<lparr>Point_x = 0, Point_y = 0\<rparr> 1 1 0)
     (\<lambda>U. uprightRectangle_contains U \<lparr>Point_x = 129 / 128, Point_y = 1 / 2\<rparr>) = Inr False \<and>
   bindE (Rectangle_init \<lparr>Point_x = 0, Point_y = 0\<rparr> 1 1 0)
     (\<lambda>R. bindE (Rectangle_init \<lparr>Point_x = 129 / 128, Point_y = 0\<rparr> 1 1 0)
        (\<lambda>R'. Rectangle_intersects R R')) = Inr True \<and>
   bindE (uprightRectangle_init \<lparr>Point_x = 0, Point_y = 0\<rparr> 1 1 0)
     (\<lambda>U. bindE (uprightRectangle_init \<lparr>Point_x = 129 / 128, Point_y = 0\<rparr> 1 1 0)
        (\<lambda>U'. uprightRectangle_intersects U U')) = Inr False"
  by (simp add: Rectangle_init_normal uprightRectangle_init_normal getVertices_upright
      Rectangle_contains_unrotated uprightRectangle_contains_unrotated
      Rectangle_intersects_unrotated uprightRectangle_intersects_unrotated
      uprightRectangle_getVertices_def Let_def Point_move_def)


subsection \<open>Bullets\<close>

lemma act_loop_no_block:
  "\<forall>c \<in> set cs. character_blocks e c mp mv = Inr False \<Longrightarrow>
   Bullet_act_loop self b e mp mv cs = Inr None"
  by (induction cs) simp_all

lemma act_loop_first_block:
  assumes "\<forall>c' \<in> set pre. character_blocks e c' mp mv = Inr False"
    and "character_blocks e c mp mv = Inr True"
  shows "Bullet_act_loop self b e mp mv (pre @ c # post) =
     (case c of
        Obstacle r \<Rightarrow> Inr (Some (Bullet_destruct self b e))
      | RobotRef a \<Rightarrow>
          Inr (Some (fst (Bullet_destruct self b e),
            (snd (Bullet_destruct self b e))
              \<lparr>robots := (robots e)(a := Robot_reduceHealth (robots e a) Bullet_damage)\<rparr>)))"
  using assms
  by (induction pre)
    (simp_all add: Bullet_destruct_def character_isRobot_def character_reduceHealth_def
      split: character.splits)

text \<open>
  Claim C3. A bullet built by the constructor at (0, 0) with direction 0 has delay 0 and
  speed 25. Where no body blocks its next two sample points and both are legal, \<open>act\<close>
  moves it to (25, 0) and a second \<open>act\<close> to (50, 0), and the environment is unchanged.
  An active bullet with a positive delay only has the delay lowered by one: position and
  environment stay. (On a bullet that is not active \<open>act\<close> does nothing at all.)
\<close>

theorem act_free_flight:
  assumes "\<forall>c \<in> set (unpenetrables e).
             character_blocks e c \<lparr>Point_x = 25, Point_y = 0\<rparr> \<lparr>Point_x = 25, Point_y = 0\<rparr> = Inr False \<and>
             character_blocks e c \<lparr>Point_x = 50, Point_y = 0\<rparr> \<lparr>Point_x = 25, Point_y = 0\<rparr> = Inr False"
    and "isLegal e \<lparr>Point_x = 25, Point_y = 0\<rparr>" and "isLegal e \<lparr>Point_x = 50, Point_y = 0\<rparr>"
  shows "Bullet_act self (Bullet_init \<lparr>Point_x = 0, Point_y = 0\<rparr> 0) e =
           Inr ((Bullet_init \<lparr>Point_x = 0, Point_y = 0\<rparr> 0)\<lparr>point := \<lparr>Point_x = 25, Point_y = 0\<rparr>\<rparr>, e) \<and>
         Bullet_act self ((Bullet_init \<lparr>Point_x = 0, Point_y = 0\<rparr> 0)\<lparr>point := \<lparr>Point_x = 25, Point_y = 0\<rparr>\<rparr>) e =
           Inr ((Bullet_init \<lparr>Point_x = 0, Point_y = 0\<rparr> 0)\<lparr>point := \<lparr>Point_x = 50, Point_y = 0\<rparr>\<rparr>, e) \<and>
         delay (Bullet_init \<lparr>Point_x = 0, Point_y = 0\<rparr> 0) = 0 \<and>
         speed (Bullet_init \<lparr>Point_x = 0, Point_y = 0\<rparr> 0) = 25 \<and>
         (active b \<and> 0 < delay b \<longrightarrow> Bullet_act self b e' = Inr (b\<lparr>delay := delay b - 1\<rparr>, e')) \<and>
         (\<not> active b \<longrightarrow> Bullet_act self b e' = Inr (b, e'))"
proof -
  have l1: "Bullet_act_loop self bb e \<lparr>Point_x = 25, Point_y = 0\<rparr> \<lparr>Point_x = 25, Point_y = 0\<rparr>
      (unpenetrables e) = Inr None" for bb
    using assms(1) by (intro act_loop_no_block) simp
  have l2: "Bullet_act_loop self bb e \<lparr>Point_x = 50, Point_y = 0\<rparr> \<lparr>Point_x = 25, Point_y = 0\<rparr>
      (unpenetrables e) = Inr None" for bb
    using assms(1) by (intro act_loop_no_block) simp
  show ?thesis
    using assms(2,3)
    by (simp add: Bullet_act_def Bullet_init_def Let_def Point_move_def Point_diff_def l1 l2)
qed

text \<open>An environment with one obstacle away from the bullet's path.\<close>

theorem act_free_flight_witness:
  "\<exists>ob r.
     uprightRectangle_init \<lparr>Point_x = 100, Point_y = 100\<rparr> 10 10 0 = Inr ob \<and>
     Robot_init \<lparr>Point_x = 0, Point_y = 0\<rparr> 0 = Inr r \<and>
     Bullet_act 0 (Bullet_init \<lparr>Point_x = 0, Point_y = 0\<rparr> 0)
       \<lparr>unpenetrables = [Obstacle ob], robots = (\<lambda>a. r), bullets = [0], isLegal = (\<lambda>p. True)\<rparr> =
     Inr ((Bullet_init \<lparr>Point_x = 0, Point_y = 0\<rparr> 0)\<lparr>point := \<lparr>Point_x = 25, Point_y = 0\<rparr>\<rparr>,
       \<lparr>unpenetrables = [Obstacle ob], robots = (\<lambda>a. r), bullets = [0], isLegal = (\<lambda>p. True)\<rparr>) \<and>
     Bullet_act 0 ((Bullet_init \<lparr>Point_x = 0, Point_y = 0\<rparr> 0)\<lparr>point := \<lparr>Point_x = 25, Point_y = 0\<rparr>\<rparr>)
       \<lparr>unpenetrables = [Obstacle ob], robots = (\<lambda>a. r), bullets = [0], isLegal = (\<lambda>p. True)\<rparr> =
     Inr ((Bullet_init \<lparr>Point_x = 0, Point_y = 0\<rparr> 0)\<lparr>point := \<lparr>Point_x = 50, Point_y = 0\<rparr>\<rparr>,
       \<lparr>unpenetrables = [Obstacle ob], robots = (\<lambda>a. r), bullets = [0], isLegal = (\<lambda>p. True)\<rparr>)"
proof -
  obtain ob where ob: "uprightRectangle_init \<lparr>Point_x = 100, Point_y = 100\<rparr> 10 10 0 = Inr ob"
      "bottom_left ob = \<lparr>Point_x = 100, Point_y = 100\<rparr>" "width ob = 10" "height ob = 10"
      "vertices ob = uprightRectangle_getVertices \<lparr>Point_x = 100, Point_y = 100\<rparr> 10 10"
    using uprightRectangle_init_angle0 by blast
  obtain b0 where b0: "Rectangle_init \<lparr>Point_x = 0, Point_y = 0\<rparr> Robot_width Robot_height 0 = Inr b0"
    by (simp add: Rectangle_init_normal)
  obtain r where r: "Robot_init \<lparr>Point_x = 0, Point_y = 0\<rparr> 0 = Inr r"
    using Robot_init_body [OF b0] by blast
  let ?e = "\<lparr>unpenetrables = [Obstacle ob], robots = (\<lambda>a. r), bullets = [0], isLegal = (\<lambda>p. True)\<rparr>"
  have free: "\<forall>c \<in> set (unpenetrables ?e).
      character_blocks ?e c \<lparr>Point_x = 25, Point_y = 0\<rparr> \<lparr>Point_x = 25, Point_y = 0\<rparr> = Inr False \<and>
      character_blocks ?e c \<lparr>Point_x = 50, Point_y = 0\<rparr> \<lparr>Point_x = 25, Point_y = 0\<rparr> = Inr False"
    using uprightRectangle_contains_unrotated [of ob]
    by (simp add: character_blocks_def uprightRectangle_blocks_def ob)
  have legal: "isLegal ?e \<lparr>Point_x = 25, Point_y = 0\<rparr>" "isLegal ?e \<lparr>Point_x = 50, Point_y = 0\<rparr>"
    by simp_all
  from act_free_flight [OF free legal, of 0] ob(1) r show ?thesis by blast
qed

text \<open>
  Claim C2, as the code has it. An active bullet with no delay left, whose next sample
  point is blocked by body \<open>c\<close> and by no body before it in the iteration order: \<open>act\<close>
  returns, the bullet is inactive and no longer among the live bullets, and the bodies
  are the same. If \<open>c\<close> is an obstacle no robot changes. If \<open>c\<close> is a robot, only that
  robot changes, by \<open>reduceHealth(20)\<close>: a living robot's health becomes the larger of 0
  and the health less 20, or less 10 under an active defense buff; the health of a robot
  that is not alive stays.
\<close>

theorem act_blocked:
  assumes "active b" and "delay b \<le> 0"
    and "mp = Point_move (point b) (cos (dir b) * speed b) (sin (dir b) * speed b)"
    and "mv = Point_diff mp (point b)"
    and "unpenetrables e = pre @ c # post"
    and "\<forall>c' \<in> set pre. character_blocks e c' mp mv = Inr False"
    and "character_blocks e c mp mv = Inr True"
  shows "\<exists>b' e'. Bullet_act self b e = Inr (b', e') \<and>
           b' = b\<lparr>active := False\<rparr> \<and>
           bullets e' = filter (\<lambda>r. r \<noteq> self) (bullets e) \<and> self \<notin> set (bullets e') \<and>
           unpenetrables e' = unpenetrables e \<and>
           (case c of
              Obstacle r \<Rightarrow> robots e' = robots e
            | RobotRef a \<Rightarrow>
                robots e' = (robots e)(a := Robot_reduceHealth (robots e a) Bullet_damage) \<and>
                health (robots e' a) =
                  (if 0 < health (robots e a)
                   then max 0 (health (robots e a) - (if 0 < defenseBuffTimer (robots e a) then 10 else 20))
                   else health (robots e a)) \<and>
                body (robots e' a) = body (robots e a))"
proof -
  have loop: "Bullet_act_loop self b e mp mv (unpenetrables e) =
     (case c of
        Obstacle r \<Rightarrow> Inr (Some (Bullet_destruct self b e))
      | RobotRef a \<Rightarrow>
          Inr (Some (fst (Bullet_destruct self b e),
            (snd (Bullet_destruct self b e))
              \<lparr>robots := (robots e)(a := Robot_reduceHealth (robots e a) Bullet_damage)\<rparr>)))"
    unfolding assms(5) using assms(6,7) by (rule act_loop_first_block)
  have act: "Bullet_act self b e =
      bindE (Bullet_act_loop self b e mp mv (unpenetrables e))
        (\<lambda>r. case r of Some s \<Rightarrow> Inr s
              | None \<Rightarrow> if isLegal e mp then Inr (b\<lparr>point := mp\<rparr>, e)
                        else Inr (Bullet_destruct self b e))"
    using assms(1,2) unfolding assms(3,4) by (simp add: Bullet_act_def Let_def)
  show ?thesis
    unfolding act loop
    by (cases c)
      (simp_all add: Bullet_destruct_def reduceHealth_health reduceHealth_body Bullet_damage_def)
qed

text \<open>A robot's body at the origin contains the point (5, 15).\<close>

lemma origin_robot_blocks:
  assumes "Robot_init \<lparr>Point_x = 0, Point_y = 0\<rparr> 0 = Inr r" and "body (robots e a) = body r"
  shows "character_blocks e (RobotRef a) \<lparr>Point_x = 5, Point_y = 15\<rparr> vec = Inr True"
proof -
  obtain b0 where b0: "Rectangle_init \<lparr>Point_x = 0, Point_y = 0\<rparr> Robot_width Robot_height 0 = Inr b0"
      "bottom_left b0 = \<lparr>Point_x = 0, Point_y = 0\<rparr>" "width b0 = Robot_width"
      "height b0 = Robot_height"
      "vertices b0 = uprightRectangle_getVertices \<lparr>Point_x = 0, Point_y = 0\<rparr> Robot_width Robot_height"
    using Rectangle_init_angle0 by blast
  have "body r = b0"
    using Robot_init_body [OF b0(1)] assms(1) by auto
  then show ?thesis
    using Rectangle_contains_unrotated [of b0 "\<lparr>Point_x = 5, Point_y = 15\<rparr>"]
    by (simp add: character_blocks_def Rectangle_blocks_def assms(2) b0 Robot_width_def
        Robot_height_def)
qed

text \<open>An obstacle off the path and then a new robot, of health 100, on it: the robot is
  hit and ends at 80; the robot at another reference keeps its 100.\<close>

theorem act_blocked_witness:
  "\<exists>ob r b' e'.
     uprightRectangle_init \<lparr>Point_x = 100, Point_y = 100\<rparr> 10 10 0 = Inr ob \<and>
     Robot_init \<lparr>Point_x = 0, Point_y = 0\<rparr> 0 = Inr r \<and>
     Bullet_act 0 (Bullet_init \<lparr>Point_x = - 20, Point_y = 15\<rparr> 0)
       \<lparr>unpenetrables = [Obstacle ob, RobotRef 0], robots = (\<lambda>a. r), bullets = [0, 1],
        isLegal = (\<lambda>p. True)\<rparr> = Inr (b', e') \<and>
     \<not> active b' \<and> bullets e' = [1] \<and> health (robots e' 0) = 80 \<and> health (robots e' 1) = 100"
proof -
  obtain ob where ob: "uprightRectangle_init \<lparr>Point_x = 100, Point_y = 100\<rparr> 10 10 0 = Inr ob"
      "bottom_left ob = \<lparr>Point_x = 100, Point_y = 100\<rparr>" "width ob = 10" "height ob = 10"
      "vertices ob = uprightRectangle_getVertices \<lparr>Point_x = 100, Point_y = 100\<rparr> 10 10"
    using uprightRectangle_init_angle0 by blast
  obtain b0 where b0: "Rectangle_init \<lparr>Point_x = 0, Point_y = 0\<rparr> Robot_width Robot_height 0 = Inr b0"
    by (simp add: Rectangle_init_normal)
  obtain r where r: "Robot_init \<lparr>Point_x = 0, Point_y = 0\<rparr> 0 = Inr r" "health r = 100"
      "defenseBuffTimer r = 0"
    using Robot_init_body [OF b0] by blast
  let ?e = "\<lparr>unpenetrables = [Obstacle ob, RobotRef 0], robots = (\<lambda>a. r), bullets = [0, 1],
        isLegal = (\<lambda>p. True)\<rparr>"
  let ?b = "Bullet_init \<lparr>Point_x = - 20, Point_y = 15\<rparr> 0"
  let ?mp = "\<lparr>Point_x = 5, Point_y = 15\<rparr>"
  let ?mv = "\<lparr>Point_x = 25, Point_y = 0\<rparr>"
  have a: "active ?b" and d: "delay ?b \<le> 0" by (simp_all add: Bullet_init_def)
  have mp: "?mp = Point_move (point ?b) (cos (dir ?b) * speed ?b) (sin (dir ?b) * speed ?b)"
    by (simp add: Bullet_init_def Point_move_def)
  have mv: "?mv = Point_diff ?mp (point ?b)"
    by (simp add: Bullet_init_def Point_diff_def)
  have u: "unpenetrables ?e = [Obstacle ob] @ RobotRef 0 # []"
    by simp
  have pre: "\<forall>c' \<in> set [Obstacle ob]. character_blocks ?e c' ?mp ?mv = Inr False"
    using uprightRectangle_contains_unrotated [of ob]
    by (simp add: character_blocks_def uprightRectangle_blocks_def ob)
  have hit: "character_blocks ?e (RobotRef 0) ?mp ?mv = Inr True"
    by (rule origin_robot_blocks [OF r(1)]) simp
  from act_blocked [OF a d mp mv u pre hit, of 0]
  obtain b' e' where t: "Bullet_act 0 ?b ?e = Inr (b', e')" "b' = ?b\<lparr>active := False\<rparr>"
      "bullets e' = filter (\<lambda>r. r \<noteq> 0) (bullets ?e)"
      "robots e' = (robots ?e)(0 := Robot_reduceHealth (robots ?e 0) Bullet_damage)"
      "health (robots e' 0) =
         (if 0 < health (robots ?e 0)
          then max 0 (health (robots ?e 0) - (if 0 < defenseBuffTimer (robots ?e 0) then 10 else 20))
          else health (robots ?e 0))"
    by auto
  show ?thesis
  proof (intro exI conjI)
    show "uprightRectangle_init \<lparr>Point_x = 100, Point_y = 100\<rparr> 10 10 0 = Inr ob" by (rule ob(1))
    show "Robot_init \<lparr>Point_x = 0, Point_y = 0\<rparr> 0 = Inr r" by (rule r(1))
    show "Bullet_act 0 ?b ?e = Inr (b', e')" by (rule t(1))
    show "\<not> active b'" by (simp add: t(2))
    show "bullets e' = [1]" by (simp add: t(3))
    show "health (robots e' 0) = 80" unfolding t(5) by (simp add: r)
    show "health (robots e' 1) = 100" by (simp add: t(4) r)
  qed
qed

text \<open>
  The claim as stated, a drop of exactly 20 without buff, fails for a robot of health
  10: the bullet is deactivated and removed, and the robot ends at 0, not at 10 less 20.
  The values below are the robot's health before the tick, the bullet's \<open>active\<close> flag,
  the live bullets and the robot's health after it.
\<close>

theorem act_blocked_counterexample:
  "bindE (Robot_init \<lparr>Point_x = 0, Point_y = 0\<rparr> 0) (\<lambda>r.
     bindE (Bullet_act 0 (Bullet_init \<lparr>Point_x = - 20, Point_y = 15\<rparr> 0)
              \<lparr>unpenetrables = [RobotRef 0], robots = (\<lambda>a. r\<lparr>health := 10\<rparr>), bullets = [0, 1],
               isLegal = (\<lambda>p. True)\<rparr>)
       (\<lambda>s. Inr (health (r\<lparr>health := 10\<rparr>), active (fst s), bullets (snd s),
                  health (robots (snd s) 0)))) =
   Inr (10, False, [1], 0) \<and> (0::real) \<noteq> 10 - 20"
proof -
  obtain b0 where b0: "Rectangle_init \<lparr>Point_x = 0, Point_y = 0\<rparr> Robot_width Robot_height 0 = Inr b0"
    by (simp add: Rectangle_init_normal)
  obtain r where r: "Robot_init \<lparr>Point_x = 0, Point_y = 0\<rparr> 0 = Inr r" "health r = 100"
      "defenseBuffTimer r = 0"
    using Robot_init_body [OF b0] by blast
  show ?thesis
    unfolding r(1) bindE_simps
    by (simp add: Bullet_act_def Bullet_init_def Let_def Point_move_def Point_diff_def
        origin_robot_blocks [OF r(1)] Bullet_destruct_def character_isRobot_def
        character_reduceHealth_def reduceHealth_health Bullet_damage_def r)
qed


end
